theory Spec2Isabelle
  imports Complex_Main "HOL-Library.Word"
begin

unbundle bit_operations_syntax

section \<open>Volumetric TSDF fusion (fusion.py): numbers, errors, arrays\<close>

text \<open>
  The program computes in IEEE single and double precision. The model computes in
  \<^typ>\<open>real\<close>: every finite intermediate value is taken to be exact. Rounding error,
  overflow to infinity of finite operands and the sign of zero are outside the model.
  What the model does keep is the one place where a non-finite value decides the control
  flow: a division by a zero camera depth, whose quotient is an infinity or a NaN that is
  then converted to an integer pixel coordinate. C \<^verbatim>\<open>int\<close> values are unbounded
  \<^typ>\<open>int\<close>s here: the volumes considered here are far below \<open>2^31\<close> voxels.
\<close>

datatype fl = Fin real | PInf | NInf | NaN

text \<open>IEEE division of two finite values.\<close>

definition fdiv :: "real \<Rightarrow> real \<Rightarrow> fl" where
  "fdiv a b =
     (if b \<noteq> 0 then Fin (a / b)
      else if a > 0 then PInf else if a < 0 then NInf else NaN)"

text \<open>IEEE product and sum of a finite value with a possibly non-finite one.\<close>

fun fmul :: "real \<Rightarrow> fl \<Rightarrow> fl" where
  "fmul a (Fin b) = Fin (a * b)"
| "fmul a PInf = (if a > 0 then PInf else if a < 0 then NInf else NaN)"
| "fmul a NInf = (if a > 0 then NInf else if a < 0 then PInf else NaN)"
| "fmul a NaN = NaN"

fun fadd :: "fl \<Rightarrow> real \<Rightarrow> fl" where
  "fadd (Fin a) b = Fin (a + b)"
| "fadd PInf b = PInf"
| "fadd NInf b = NInf"
| "fadd NaN b = NaN"

text \<open>C's \<^verbatim>\<open>roundf\<close>: to the nearest integer, halfway cases away from zero.\<close>

definition round_away :: "real \<Rightarrow> int" where
  "round_away x = (if x \<ge> 0 then \<lfloor>x + 1 / 2\<rfloor> else \<lceil>x - 1 / 2\<rceil>)"

fun roundf :: "fl \<Rightarrow> fl" where
  "roundf (Fin x) = Fin (of_int (round_away x))"
| "roundf PInf = PInf"
| "roundf NInf = NInf"
| "roundf NaN = NaN"

text \<open>NumPy's \<^verbatim>\<open>np.round\<close>: to the nearest integer, halfway cases to the even one.\<close>

definition np_round :: "real \<Rightarrow> int" where
  "np_round x =
     (let f = \<lfloor>x\<rfloor>; d = x - of_int f
      in if d < 1 / 2 then f else if d > 1 / 2 then f + 1
         else if even f then f else f + 1)"

text \<open>
  A C cast \<^verbatim>\<open>(int) x\<close> of a finite float truncates towards zero. Inside the CUDA kernel
  the conversion of a non-finite float is the device's: it saturates an infinity to
  \<^verbatim>\<open>INT_MAX\<close> or \<^verbatim>\<open>INT_MIN\<close> and turns a NaN into 0.
\<close>

definition c_int :: "real \<Rightarrow> int" where
  "c_int x = (if x \<ge> 0 then \<lfloor>x\<rfloor> else \<lceil>x\<rceil>)"

definition INT_MAX :: int where "INT_MAX = 2147483647"
definition INT_MIN :: int where "INT_MIN = - 2147483648"

fun cuda_float2int :: "fl \<Rightarrow> int" where
  "cuda_float2int (Fin x) = c_int x"
| "cuda_float2int PInf = INT_MAX"
| "cuda_float2int NInf = INT_MIN"
| "cuda_float2int NaN = 0"

text \<open>Python exceptions and kernel faults, as values.\<close>

datatype error =
    AssertionError
  | ValueError
  | ZeroDivisionError
  | LinAlgError
  | IndexError
  | NameError string
  | CudaError
  | OutOfBounds

definition bind_err :: "error + 'a \<Rightarrow> ('a \<Rightarrow> error + 'b) \<Rightarrow> error + 'b" where
  "bind_err r f = (case r of Inl e \<Rightarrow> Inl e | Inr v \<Rightarrow> f v)"

text \<open>
  A read or write of a device array through a C pointer: inside the allocation or a
  fault. The kernel has no bounds checks of its own; the model reports every access
  outside the allocation as \<^term>\<open>OutOfBounds\<close>.
\<close>

definition rd :: "'a list \<Rightarrow> int \<Rightarrow> error + 'a" where
  "rd xs i = (if 0 \<le> i \<and> i < int (length xs) then Inr (xs ! nat i) else Inl OutOfBounds)"

definition wr :: "'a list \<Rightarrow> int \<Rightarrow> 'a \<Rightarrow> error + 'a list" where
  "wr xs i v = (if 0 \<le> i \<and> i < int (length xs) then Inr (xs[nat i := v]) else Inl OutOfBounds)"

text \<open>
  NumPy indexing \<^verbatim>\<open>a[i]\<close> along one axis of length \<open>n\<close>: a negative index counts from
  the end, an index outside \<open>[-n, n)\<close> raises IndexError.
\<close>

definition np_index :: "nat \<Rightarrow> int \<Rightarrow> error + nat" where
  "np_index n i =
     (if 0 \<le> i \<and> i < int n then Inr (nat i)
      else if - int n \<le> i \<and> i < 0 then Inr (nat (int n + i))
      else Inl IndexError)"

definition np_get2 :: "'a list list \<Rightarrow> int \<Rightarrow> int \<Rightarrow> error + 'a" where
  "np_get2 im y x =
     bind_err (np_index (length im) y) (\<lambda>r.
     bind_err (np_index (length (im ! r)) x) (\<lambda>c. Inr (im ! r ! c)))"

section \<open>The colour codec\<close>

text \<open>\<^verbatim>\<open>self._color_const = 256 * 256\<close>\<close>

definition color_const :: real where
  "color_const = 256 * 256"

text \<open>
  The fold of an RGB pixel into one number, line 272:
  \<^verbatim>\<open>np.floor(color_im[...,2]*self._color_const + color_im[...,1]*256 + color_im[...,0])\<close>.
\<close>

definition fold_color :: "real \<times> real \<times> real \<Rightarrow> real" where
  "fold_color px = (case px of (c0, c1, c2) \<Rightarrow> of_int \<lfloor>c2 * color_const + c1 * 256 + c0\<rfloor>)"

text \<open>
  The unpacking that the colour update, \<^verbatim>\<open>get_mesh\<close> and \<^verbatim>\<open>get_point_cloud\<close> all
  repeat: \<^verbatim>\<open>b = floor(c / 65536)\<close>, \<^verbatim>\<open>g = floor((c - b*65536) / 256)\<close>,
  \<^verbatim>\<open>r = c - b*65536 - g*256\<close>.
\<close>

definition unpack_b :: "real \<Rightarrow> real" where
  "unpack_b c = of_int \<lfloor>c / color_const\<rfloor>"

definition unpack_g :: "real \<Rightarrow> real" where
  "unpack_g c = of_int \<lfloor>(c - unpack_b c * color_const) / 256\<rfloor>"

definition unpack_r :: "real \<Rightarrow> real" where
  "unpack_r c = c - unpack_b c * color_const - unpack_g c * 256"

definition unpack_color :: "real \<Rightarrow> real \<times> real \<times> real" where
  "unpack_color c = (unpack_r c, unpack_g c, unpack_b c)"

section \<open>The voxel volume\<close>

text \<open>
  What the constructor asks of its surroundings: whether PyCUDA could be imported
  (\<^verbatim>\<open>FUSION_GPU_MODE\<close>), the limits of CUDA device 0, and the integer that NumPy's
  \<^verbatim>\<open>astype(int)\<close> yields for an infinity or a NaN on this machine (NumPy leaves it to
  the hardware).
\<close>

record platform =
  FUSION_GPU_MODE :: bool
  MAX_THREADS_PER_BLOCK :: int
  MAX_GRID_DIM_X :: int
  MAX_GRID_DIM_Y :: int
  MAX_GRID_DIM_Z :: int
  astype_int_nonfinite :: "fl \<Rightarrow> int"

text \<open>
  The object's attributes. The five voxel arrays are kept flat, in C order: the element
  \<open>[x, y, z]\<close> of an array of shape \<open>vol_dim\<close> is at \<open>x * vol_dim[1] * vol_dim[2] + y * vol_dim[2] + z\<close>,
  which is also how the device copies are addressed. The device buffers and launch
  geometry exist only in GPU mode and \<open>vox_coords\<close> only in CPU mode; the attributes
  that an object does not have are empty here and are never read.
\<close>

record TSDFVolume =
  vol_bnds :: "real list list"
  voxel_size :: real
  trunc_margin :: real
  vol_dim :: "int list"
  vol_origin :: "real list"
  tsdf_vol_cpu :: "real list"
  occl_vol_cpu :: "real list"
  weight_vol_cpu :: "real list"
  color_vol_cpu :: "real list"
  mask_vol_cpu :: "32 word list"
  gpu_mode :: bool
  tsdf_vol_gpu :: "real list"
  occl_vol_gpu :: "real list"
  weight_vol_gpu :: "real list"
  color_vol_gpu :: "real list"
  mask_vol_gpu :: "32 word list"
  max_gpu_threads_per_block :: int
  max_gpu_grid_dim :: "int list"
  n_gpu_loops :: int
  vox_coords :: "(int \<times> int \<times> int) list"

subsection \<open>\<^verbatim>\<open>reset_visible\<close>\<close>

text \<open>
  \<^verbatim>\<open>self._weight_vol_cpu[:] = 0.0\<close> and \<^verbatim>\<open>self._mask_vol_cpu[:] = 0.0\<close> overwrite every
  element in place; in GPU mode \<^verbatim>\<open>memcpy_htod\<close> then copies the two host arrays over
  the two device buffers. The lines for the other three arrays are commented out.
\<close>

definition reset_visible :: "TSDFVolume \<Rightarrow> TSDFVolume" where
  "reset_visible self =
     (let self1 = self\<lparr>weight_vol_cpu := map (\<lambda>_. 0) (weight_vol_cpu self)\<rparr>;
          self2 = self1\<lparr>mask_vol_cpu := map (\<lambda>_. 0) (mask_vol_cpu self1)\<rparr>
      in if gpu_mode self2
         then self2\<lparr>weight_vol_gpu := weight_vol_cpu self2, mask_vol_gpu := mask_vol_cpu self2\<rparr>
         else self2)"

subsection \<open>The constructor\<close>

text \<open>\<^verbatim>\<open>vol_bnds.shape == (3, 2)\<close>\<close>

definition shape_is_3_2 :: "real list list \<Rightarrow> bool" where
  "shape_is_3_2 b = (length b = 3 \<and> list_all (\<lambda>row. length row = 2) b)"

text \<open>
  One entry of \<^verbatim>\<open>np.ceil((vol_bnds[:,1]-vol_bnds[:,0])/voxel_size).astype(int)\<close>. NumPy
  divides by zero without raising: the quotient is then an infinity or a NaN.
\<close>

definition ceil_div_astype_int :: "platform \<Rightarrow> real \<Rightarrow> real \<Rightarrow> int" where
  "ceil_div_astype_int plat a b =
     (case fdiv a b of Fin q \<Rightarrow> \<lceil>q\<rceil> | PInf \<Rightarrow> astype_int_nonfinite plat PInf
        | NInf \<Rightarrow> astype_int_nonfinite plat NInf | NaN \<Rightarrow> astype_int_nonfinite plat NaN)"

text \<open>The greatest \<open>k \<le> n\<close> with \<open>P k\<close> (0 when there is none).\<close>

fun greatest_below :: "(nat \<Rightarrow> bool) \<Rightarrow> nat \<Rightarrow> nat" where
  "greatest_below P 0 = 0"
| "greatest_below P (Suc k) = (if P (Suc k) then Suc k else greatest_below P k)"

text \<open>\<^verbatim>\<open>int(np.floor(np.cbrt(n)))\<close> and \<^verbatim>\<open>int(np.floor(np.sqrt(n/d)))\<close>, for \<open>n \<ge> 0\<close>, \<open>d > 0\<close>.\<close>

definition floor_cbrt :: "int \<Rightarrow> int" where
  "floor_cbrt n = int (greatest_below (\<lambda>k. int k ^ 3 \<le> n) (nat n))"

definition floor_sqrt_quot :: "int \<Rightarrow> int \<Rightarrow> int" where
  "floor_sqrt_quot n d = int (greatest_below (\<lambda>k. int k ^ 2 * d \<le> n) (nat n))"

text \<open>
  ``Determine block/grid size on GPU'', lines 190-197. Python raises ZeroDivisionError
  where a divisor is zero.
\<close>

definition gpu_dispatch :: "platform \<Rightarrow> int \<Rightarrow> error + (int list \<times> int)" where
  "gpu_dispatch plat n =
     (let t = MAX_THREADS_PER_BLOCK plat
      in if t = 0 then Inl ZeroDivisionError else
      let n_blocks = \<lceil>real_of_int n / real_of_int t\<rceil>;
          grid_dim_x = min (MAX_GRID_DIM_X plat) (floor_cbrt n_blocks)
      in if grid_dim_x = 0 then Inl ZeroDivisionError else
      let grid_dim_y = min (MAX_GRID_DIM_Y plat) (floor_sqrt_quot n_blocks grid_dim_x)
      in if grid_dim_x * grid_dim_y = 0 then Inl ZeroDivisionError else
      let grid_dim_z = min (MAX_GRID_DIM_Z plat)
                         \<lceil>real_of_int n_blocks / real_of_int (grid_dim_x * grid_dim_y)\<rceil>
      in if grid_dim_x * grid_dim_y * grid_dim_z * t = 0 then Inl ZeroDivisionError else
         Inr ([grid_dim_x, grid_dim_y, grid_dim_z],
              \<lceil>real_of_int n / real_of_int (grid_dim_x * grid_dim_y * grid_dim_z * t)\<rceil>))"

text \<open>
  \<^verbatim>\<open>np.meshgrid(..., indexing='ij')\<close>, reshaped and transposed: the voxel coordinates in
  C order.
\<close>

definition meshgrid_coords :: "int list \<Rightarrow> (int \<times> int \<times> int) list" where
  "meshgrid_coords d =
     concat (map (\<lambda>x. concat (map (\<lambda>y. map (\<lambda>z. (int x, int y, int z))
       [0..<nat (d ! 2)]) [0..<nat (d ! 1)])) [0..<nat (d ! 0)])"

text \<open>
  \<^verbatim>\<open>TSDFVolume.__init__\<close>. The assertion on the shape is the only check of the
  arguments. \<^verbatim>\<open>np.ones\<close> and \<^verbatim>\<open>np.zeros\<close> raise ValueError for a negative dimension,
  \<^verbatim>\<open>cuda.mem_alloc\<close> refuses an allocation of zero bytes.
\<close>

definition TSDFVolume_init ::
    "platform \<Rightarrow> real list list \<Rightarrow> real \<Rightarrow> bool \<Rightarrow> error + TSDFVolume" where
  "TSDFVolume_init plat vol_bnds0 voxel_size0 use_gpu =
     (if \<not> shape_is_3_2 vol_bnds0 then Inl AssertionError else
      let dims = map (\<lambda>row. ceil_div_astype_int plat (row ! 1 - row ! 0) voxel_size0) vol_bnds0;
          bnds = map2 (\<lambda>row d. [row ! 0, row ! 0 + real_of_int d * voxel_size0]) vol_bnds0 dims;
          origin = map (\<lambda>row. row ! 0) bnds
      in if list_ex (\<lambda>d. d < 0) dims then Inl ValueError else
      let n = nat (prod_list dims);
          self = \<lparr> vol_bnds = bnds, voxel_size = voxel_size0, trunc_margin = 5 * voxel_size0,
                   vol_dim = dims, vol_origin = origin,
                   tsdf_vol_cpu = replicate n 1, occl_vol_cpu = replicate n (- 100),
                   weight_vol_cpu = replicate n 0, color_vol_cpu = replicate n 0,
                   mask_vol_cpu = replicate n 0,
                   gpu_mode = (use_gpu \<and> FUSION_GPU_MODE plat),
                   tsdf_vol_gpu = [], occl_vol_gpu = [], weight_vol_gpu = [],
                   color_vol_gpu = [], mask_vol_gpu = [],
                   max_gpu_threads_per_block = 0, max_gpu_grid_dim = [], n_gpu_loops = 0,
                   vox_coords = [] \<rparr>
      in if gpu_mode self then
           if n = 0 then Inl CudaError else
           bind_err (gpu_dispatch plat (prod_list dims)) (\<lambda>(grid, loops).
             Inr (self\<lparr> tsdf_vol_gpu := tsdf_vol_cpu self, occl_vol_gpu := occl_vol_cpu self,
                        weight_vol_gpu := weight_vol_cpu self, color_vol_gpu := color_vol_cpu self,
                        mask_vol_gpu := mask_vol_cpu self,
                        max_gpu_threads_per_block := MAX_THREADS_PER_BLOCK plat,
                        max_gpu_grid_dim := grid, n_gpu_loops := loops \<rparr>))
         else Inr (self\<lparr> vox_coords := meshgrid_coords dims \<rparr>))"

section \<open>One frame\<close>

text \<open>
  The arguments of \<^verbatim>\<open>integrate\<close>. An image is a list of rows; a colour pixel is the
  triple of its channels \<open>[..., 0]\<close>, \<open>[..., 1]\<close>, \<open>[..., 2]\<close> after
  \<^verbatim>\<open>astype(np.float32)\<close>; the mask values are taken as unsigned 32-bit integers on both
  paths.
\<close>

record frame =
  color_im :: "(real \<times> real \<times> real) list list"
  depth_im :: "real list list"
  mask_im :: "32 word list list"
  cam_intr :: "real list list"
  cam_pose :: "real list list"
  rgb_intr :: "real list list"
  rgb_pose :: "real list list"
  obs_weight :: real

text \<open>\<^verbatim>\<open>im_h, im_w = depth_im.shape\<close>\<close>

definition shape2 :: "'a list list \<Rightarrow> int \<times> int" where
  "shape2 im = (int (length im), (case im of [] \<Rightarrow> 0 | row # _ \<Rightarrow> int (length row)))"

section \<open>The CUDA kernel\<close>

record dim3 =
  dim_x :: int
  dim_y :: int
  dim_z :: int

text \<open>The five device buffers the kernel reads and writes.\<close>

record gpu_mem =
  tsdf_vol :: "real list"
  occl_vol :: "real list"
  weight_vol :: "real list"
  color_vol :: "real list"
  mask_vol :: "32 word list"

text \<open>The ten read-only arrays passed with \<^verbatim>\<open>cuda.InOut\<close>.\<close>

record kernel_args =
  a_vol_dim :: "real list"
  a_vol_origin :: "real list"
  a_cam_intr :: "real list"
  a_cam_pose :: "real list"
  a_rgb_intr :: "real list"
  a_rgb_pose :: "real list"
  a_other_params :: "real list"
  a_color_im :: "real list"
  a_depth_im :: "real list"
  a_mask_im :: "32 word list"

text \<open>``Get voxel index'', lines 107-110.\<close>

definition thread_voxel_idx :: "kernel_args \<Rightarrow> dim3 \<Rightarrow> dim3 \<Rightarrow> dim3 \<Rightarrow> dim3 \<Rightarrow> int" where
  "thread_voxel_idx a gridDim blockDim blockIdx threadIdx =
     (let gpu_loop_idx = c_int (a_other_params a ! 0);
          max_threads_per_block = dim_x blockDim;
          block_idx = dim_z blockIdx * dim_y gridDim * dim_x gridDim
                      + dim_y blockIdx * dim_x gridDim + dim_x blockIdx
      in gpu_loop_idx * dim_x gridDim * dim_y gridDim * dim_z gridDim * max_threads_per_block
         + block_idx * max_threads_per_block + dim_x threadIdx)"

text \<open>\<^verbatim>\<open>vol_dim_x*vol_dim_y*vol_dim_z\<close>, lines 111-114.\<close>

definition kernel_num_voxels :: "kernel_args \<Rightarrow> int" where
  "kernel_num_voxels a =
     c_int (a_vol_dim a ! 0) * c_int (a_vol_dim a ! 1) * c_int (a_vol_dim a ! 2)"

text \<open>
  ``Get voxel grid coordinates'', lines 117-119. The divisors are products of volume
  dimensions; the constructor refuses an empty volume in GPU mode, so they are not zero
  when the kernel runs.
\<close>

definition floorf :: "real \<Rightarrow> real" where
  "floorf x = of_int \<lfloor>x\<rfloor>"

definition voxel_grid_coords :: "kernel_args \<Rightarrow> int \<Rightarrow> real \<times> real \<times> real" where
  "voxel_grid_coords a voxel_idx =
     (let vol_dim_y = c_int (a_vol_dim a ! 1);
          vol_dim_z = c_int (a_vol_dim a ! 2);
          voxel_x = floorf (real_of_int voxel_idx / real_of_int (vol_dim_y * vol_dim_z));
          voxel_y = floorf (real_of_int (voxel_idx - c_int voxel_x * vol_dim_y * vol_dim_z)
                            / real_of_int vol_dim_z);
          voxel_z = real_of_int (voxel_idx - c_int voxel_x * vol_dim_y * vol_dim_z
                                 - c_int voxel_y * vol_dim_z)
      in (voxel_x, voxel_y, voxel_z))"

text \<open>``Voxel grid coordinates to world coordinates'', lines 121-124.\<close>

definition voxel_world_pt :: "kernel_args \<Rightarrow> int \<Rightarrow> real \<times> real \<times> real" where
  "voxel_world_pt a voxel_idx =
     (case voxel_grid_coords a voxel_idx of (voxel_x, voxel_y, voxel_z) \<Rightarrow>
        let voxel_size = a_other_params a ! 1
        in (a_vol_origin a ! 0 + voxel_x * voxel_size,
            a_vol_origin a ! 1 + voxel_y * voxel_size,
            a_vol_origin a ! 2 + voxel_z * voxel_size))"

text \<open>
  ``World coordinates to camera coordinates'', lines 126-131 for the depth camera and
  161-166 for the colour camera: the transposed rotation block applied to the point
  minus the translation column of the flattened 4x4 pose.
\<close>

definition world_to_cam :: "real list \<Rightarrow> real \<times> real \<times> real \<Rightarrow> real \<times> real \<times> real" where
  "world_to_cam pose pt =
     (case pt of (pt_x, pt_y, pt_z) \<Rightarrow>
        let tmp_pt_x = pt_x - pose ! (0 * 4 + 3);
            tmp_pt_y = pt_y - pose ! (1 * 4 + 3);
            tmp_pt_z = pt_z - pose ! (2 * 4 + 3)
        in (pose ! (0 * 4 + 0) * tmp_pt_x + pose ! (1 * 4 + 0) * tmp_pt_y + pose ! (2 * 4 + 0) * tmp_pt_z,
            pose ! (0 * 4 + 1) * tmp_pt_x + pose ! (1 * 4 + 1) * tmp_pt_y + pose ! (2 * 4 + 1) * tmp_pt_z,
            pose ! (0 * 4 + 2) * tmp_pt_x + pose ! (1 * 4 + 2) * tmp_pt_y + pose ! (2 * 4 + 2) * tmp_pt_z))"

text \<open>
  ``Camera coordinates to image pixels'', lines 133-134 and 168-169:
  \<^verbatim>\<open>(int) roundf(intr[0*3+0]*(x/z)+intr[0*3+2])\<close>. The division is IEEE: for \<open>z = 0\<close>
  the pixel comes from an infinity or a NaN.
\<close>

definition cam_to_pixel :: "real list \<Rightarrow> real \<times> real \<times> real \<Rightarrow> int \<times> int" where
  "cam_to_pixel intr cam_pt =
     (case cam_pt of (cam_pt_x, cam_pt_y, cam_pt_z) \<Rightarrow>
        (cuda_float2int (roundf (fadd (fmul (intr ! (0 * 3 + 0)) (fdiv cam_pt_x cam_pt_z)) (intr ! (0 * 3 + 2)))),
         cuda_float2int (roundf (fadd (fmul (intr ! (1 * 3 + 1)) (fdiv cam_pt_y cam_pt_z)) (intr ! (1 * 3 + 2))))))"

text \<open>
  The test of lines 138 and 170. At line 170 the depth is still the depth camera's
  \<^verbatim>\<open>cam_pt_z\<close>.
\<close>

definition outside_frustum :: "int \<Rightarrow> int \<Rightarrow> int \<Rightarrow> int \<Rightarrow> real \<Rightarrow> bool" where
  "outside_frustum pixel_x pixel_y im_w im_h cam_pt_z =
     (pixel_x < 0 \<or> pixel_x \<ge> im_w \<or> pixel_y < 0 \<or> pixel_y \<ge> im_h \<or> cam_pt_z < 0)"

text \<open>``Integrate color'', lines 173-184.\<close>

definition mix_channel :: "real \<Rightarrow> real \<Rightarrow> real \<Rightarrow> real \<Rightarrow> real \<Rightarrow> real" where
  "mix_channel old new w_old obs_w w_new =
     min (real_of_int (round_away ((old * w_old + obs_w * new) / w_new))) 255"

definition kernel_color :: "real \<Rightarrow> real \<Rightarrow> real \<Rightarrow> real \<Rightarrow> real \<Rightarrow> real" where
  "kernel_color old_color new_color w_old obs_w w_new =
     (let old_b = floorf (old_color / (256 * 256));
          old_g = floorf ((old_color - old_b * 256 * 256) / 256);
          old_r = old_color - old_b * 256 * 256 - old_g * 256;
          new_b = floorf (new_color / (256 * 256));
          new_g = floorf ((new_color - new_b * 256 * 256) / 256);
          new_r = new_color - new_b * 256 * 256 - new_g * 256;
          new_b = mix_channel old_b new_b w_old obs_w w_new;
          new_g = mix_channel old_g new_g w_old obs_w w_new;
          new_r = mix_channel old_r new_r w_old obs_w w_new
      in new_b * 256 * 256 + new_g * 256 + new_r)"

text \<open>
  The second half of the kernel, lines 149-184, for a thread that has passed the frustum
  and depth tests and has written the mask: occlusion, truncation test, weight and TSDF,
  projection into the colour camera, colour.
\<close>

definition kernel_tsdf_color ::
    "kernel_args \<Rightarrow> int \<Rightarrow> real \<Rightarrow> real \<Rightarrow> gpu_mem \<Rightarrow> error + gpu_mem" where
  "kernel_tsdf_color a voxel_idx depth_value cam_pt_z m =
     (let trunc_margin = a_other_params a ! 4;
          depth_diff = depth_value - cam_pt_z
      in bind_err (rd (occl_vol m) voxel_idx) (\<lambda>occl_old.
         bind_err (wr (occl_vol m) voxel_idx (max occl_old depth_diff)) (\<lambda>occl_new.
         let m1 = m\<lparr>occl_vol := occl_new\<rparr>
         in if depth_diff < - trunc_margin then Inr m1 else
         let dist = min 1 (depth_diff / trunc_margin)
         in bind_err (rd (weight_vol m1) voxel_idx) (\<lambda>w_old.
         let obs_w = a_other_params a ! 5;
             w_new = w_old + obs_w
         in bind_err (wr (weight_vol m1) voxel_idx w_new) (\<lambda>weight_new.
         bind_err (rd (tsdf_vol m1) voxel_idx) (\<lambda>tsdf_old.
         bind_err (wr (tsdf_vol m1) voxel_idx ((tsdf_old * w_old + obs_w * dist) / w_new)) (\<lambda>tsdf_new.
         let m2 = m1\<lparr>weight_vol := weight_new, tsdf_vol := tsdf_new\<rparr>;
             im_h = c_int (a_other_params a ! 2);
             im_w = c_int (a_other_params a ! 3)
         in case cam_to_pixel (a_rgb_intr a) (world_to_cam (a_rgb_pose a) (voxel_world_pt a voxel_idx)) of
              (pixel_x, pixel_y) \<Rightarrow>
           if outside_frustum pixel_x pixel_y im_w im_h cam_pt_z then Inr m2 else
           bind_err (rd (color_vol m2) voxel_idx) (\<lambda>old_color.
           bind_err (rd (a_color_im a) (pixel_y * im_w + pixel_x)) (\<lambda>new_color.
           bind_err (wr (color_vol m2) voxel_idx (kernel_color old_color new_color w_old obs_w w_new))
             (\<lambda>color_new. Inr (m2\<lparr>color_vol := color_new\<rparr>)))))))))))"

text \<open>
  One thread of \<^verbatim>\<open>__global__ void integrate\<close>, lines 106-147 and then the second half.
  \<open>Inr\<close> is the device memory when the thread returns.
\<close>

definition integrate_kernel ::
    "kernel_args \<Rightarrow> dim3 \<Rightarrow> dim3 \<Rightarrow> dim3 \<Rightarrow> dim3 \<Rightarrow> gpu_mem \<Rightarrow> error + gpu_mem" where
  "integrate_kernel a gridDim blockDim blockIdx threadIdx m =
     (let voxel_idx = thread_voxel_idx a gridDim blockDim blockIdx threadIdx
      in if voxel_idx > kernel_num_voxels a then Inr m else
      case world_to_cam (a_cam_pose a) (voxel_world_pt a voxel_idx) of
        (cam_pt_x, cam_pt_y, cam_pt_z) \<Rightarrow>
      case cam_to_pixel (a_cam_intr a) (cam_pt_x, cam_pt_y, cam_pt_z) of
        (pixel_x, pixel_y) \<Rightarrow>
      let im_h = c_int (a_other_params a ! 2);
          im_w = c_int (a_other_params a ! 3)
      in if outside_frustum pixel_x pixel_y im_w im_h cam_pt_z then Inr m else
         bind_err (rd (a_depth_im a) (pixel_y * im_w + pixel_x)) (\<lambda>depth_value.
         if depth_value = 0 then Inr m else
         bind_err (rd (mask_vol m) voxel_idx) (\<lambda>old_mask.
         bind_err (rd (a_mask_im a) (pixel_y * im_w + pixel_x)) (\<lambda>new_mask.
         bind_err (wr (mask_vol m) voxel_idx (old_mask OR new_mask)) (\<lambda>mask_new.
         kernel_tsdf_color a voxel_idx depth_value cam_pt_z (m\<lparr>mask_vol := mask_new\<rparr>))))))"

section \<open>What the kernel does to one voxel\<close>

text \<open>
  The values a thread computes for its voxel from the read-only arguments alone: the
  camera-space point, the two pixels, the depth it reads, the depth difference and the
  truncated distance. They name the kernel's local variables so that the properties of
  \<^const>\<open>integrate_kernel\<close> can be stated.
\<close>

definition kernel_cam_pt :: "kernel_args \<Rightarrow> int \<Rightarrow> real \<times> real \<times> real" where
  "kernel_cam_pt a v = world_to_cam (a_cam_pose a) (voxel_world_pt a v)"

definition kernel_cam_z :: "kernel_args \<Rightarrow> int \<Rightarrow> real" where
  "kernel_cam_z a v = snd (snd (kernel_cam_pt a v))"

definition kernel_pixel :: "kernel_args \<Rightarrow> int \<Rightarrow> int \<times> int" where
  "kernel_pixel a v = cam_to_pixel (a_cam_intr a) (kernel_cam_pt a v)"

definition kernel_rgb_pixel :: "kernel_args \<Rightarrow> int \<Rightarrow> int \<times> int" where
  "kernel_rgb_pixel a v =
     cam_to_pixel (a_rgb_intr a) (world_to_cam (a_rgb_pose a) (voxel_world_pt a v))"

definition pixel_outside :: "kernel_args \<Rightarrow> int \<times> int \<Rightarrow> real \<Rightarrow> bool" where
  "pixel_outside a px z =
     outside_frustum (fst px) (snd px) (c_int (a_other_params a ! 3)) (c_int (a_other_params a ! 2)) z"

definition pixel_offset :: "kernel_args \<Rightarrow> int \<times> int \<Rightarrow> int" where
  "pixel_offset a px = snd px * c_int (a_other_params a ! 3) + fst px"

definition kernel_depth_value :: "kernel_args \<Rightarrow> int \<Rightarrow> real" where
  "kernel_depth_value a v = a_depth_im a ! nat (pixel_offset a (kernel_pixel a v))"

text \<open>The voxel passes the frustum test of line 138 and the depth test of line 142.\<close>

definition passes_tests :: "kernel_args \<Rightarrow> int \<Rightarrow> bool" where
  "passes_tests a v =
     (\<not> pixel_outside a (kernel_pixel a v) (kernel_cam_z a v) \<and> kernel_depth_value a v \<noteq> 0)"

definition kernel_depth_diff :: "kernel_args \<Rightarrow> int \<Rightarrow> real" where
  "kernel_depth_diff a v = kernel_depth_value a v - kernel_cam_z a v"

text \<open>The voxel is cut off by the truncation test of line 152.\<close>

definition truncated_away :: "kernel_args \<Rightarrow> int \<Rightarrow> bool" where
  "truncated_away a v = (kernel_depth_diff a v < - (a_other_params a ! 4))"

definition kernel_dist :: "kernel_args \<Rightarrow> int \<Rightarrow> real" where
  "kernel_dist a v = min 1 (kernel_depth_diff a v / (a_other_params a ! 4))"

text \<open>
  The five values of one voxel, in the order tsdf, occl, weight, color, mask, and what a
  thread that gets past the guard of line 114 makes of them.
\<close>

type_synonym cell = "real \<times> real \<times> real \<times> real \<times> 32 word"

definition cell_at :: "gpu_mem \<Rightarrow> nat \<Rightarrow> cell" where
  "cell_at m v = (tsdf_vol m ! v, occl_vol m ! v, weight_vol m ! v, color_vol m ! v, mask_vol m ! v)"

definition voxel_step :: "kernel_args \<Rightarrow> int \<Rightarrow> cell \<Rightarrow> cell" where
  "voxel_step a v c =
     (case c of (t, oc, w, col, msk) \<Rightarrow>
        if \<not> passes_tests a v then c else
        let msk' = msk OR (a_mask_im a ! nat (pixel_offset a (kernel_pixel a v)));
            oc' = max oc (kernel_depth_diff a v)
        in if truncated_away a v then (t, oc', w, col, msk') else
        let obs_w = a_other_params a ! 5;
            w' = w + obs_w;
            t' = (t * w + obs_w * kernel_dist a v) / w';
            col' = (if pixel_outside a (kernel_rgb_pixel a v) (kernel_cam_z a v) then col
                    else kernel_color col (a_color_im a ! nat (pixel_offset a (kernel_rgb_pixel a v)))
                           w obs_w w')
        in (t', oc', w', col', msk'))"

text \<open>The same for a thread with any index: the guard of line 114 first.\<close>

definition thread_step :: "kernel_args \<Rightarrow> int \<Rightarrow> cell \<Rightarrow> cell" where
  "thread_step a v c = (if v > kernel_num_voxels a then c else voxel_step a v c)"

section \<open>\<^verbatim>\<open>integrate\<close>, GPU mode\<close>

text \<open>Running a list of steps on a state, stopping at the first fault.\<close>

fun fold_err :: "('x \<Rightarrow> 's \<Rightarrow> error + 's) \<Rightarrow> 'x list \<Rightarrow> 's \<Rightarrow> error + 's" where
  "fold_err f [] s = Inr s"
| "fold_err f (x # xs) s = bind_err (f x s) (fold_err f xs)"

text \<open>
  The threads of one launch with \<^verbatim>\<open>block=(T,1,1)\<close> and \<^verbatim>\<open>grid=(gx,gy,gz)\<close>, as
  pairs of \<^verbatim>\<open>blockIdx\<close> and \<^verbatim>\<open>threadIdx\<close>. The device runs them in no fixed order;
  each thread only touches the elements at its own \<^verbatim>\<open>voxel_idx\<close>, so the model runs
  them one after the other in the order of this list.
\<close>

definition launch_threads :: "dim3 \<Rightarrow> dim3 \<Rightarrow> (dim3 \<times> dim3) list" where
  "launch_threads gridDim blockDim =
     concat (map (\<lambda>bz. concat (map (\<lambda>by. concat (map (\<lambda>bx. map (\<lambda>tx.
         (\<lparr>dim_x = int bx, dim_y = int by, dim_z = int bz\<rparr>, \<lparr>dim_x = int tx, dim_y = 0, dim_z = 0\<rparr>))
       [0..<nat (dim_x blockDim)])
       [0..<nat (dim_x gridDim)]))
       [0..<nat (dim_y gridDim)]))
       [0..<nat (dim_z gridDim)])"

definition cuda_launch :: "kernel_args \<Rightarrow> dim3 \<Rightarrow> dim3 \<Rightarrow> gpu_mem \<Rightarrow> error + gpu_mem" where
  "cuda_launch a gridDim blockDim m =
     fold_err (\<lambda>(blockIdx, threadIdx). integrate_kernel a gridDim blockDim blockIdx threadIdx)
       (launch_threads gridDim blockDim) m"

text \<open>The arguments of the launch number \<open>gpu_loop_idx\<close>, lines 281-297.\<close>

definition make_kernel_args :: "TSDFVolume \<Rightarrow> frame \<Rightarrow> int \<Rightarrow> kernel_args" where
  "make_kernel_args self f gpu_loop_idx =
     (case shape2 (depth_im f) of (im_h, im_w) \<Rightarrow>
      \<lparr> a_vol_dim = map real_of_int (vol_dim self),
        a_vol_origin = vol_origin self,
        a_cam_intr = concat (cam_intr f),
        a_cam_pose = concat (cam_pose f),
        a_rgb_intr = concat (rgb_intr f),
        a_rgb_pose = concat (rgb_pose f),
        a_other_params = [real_of_int gpu_loop_idx, voxel_size self, real_of_int im_h,
                          real_of_int im_w, trunc_margin self, obs_weight f],
        a_color_im = concat (map (map fold_color) (color_im f)),
        a_depth_im = concat (depth_im f),
        a_mask_im = concat (mask_im f) \<rparr>)"

definition device_mem :: "TSDFVolume \<Rightarrow> gpu_mem" where
  "device_mem self =
     \<lparr> tsdf_vol = tsdf_vol_gpu self, occl_vol = occl_vol_gpu self,
       weight_vol = weight_vol_gpu self, color_vol = color_vol_gpu self,
       mask_vol = mask_vol_gpu self \<rparr>"

definition with_device_mem :: "TSDFVolume \<Rightarrow> gpu_mem \<Rightarrow> TSDFVolume" where
  "with_device_mem self m =
     self\<lparr> tsdf_vol_gpu := tsdf_vol m, occl_vol_gpu := occl_vol m,
           weight_vol_gpu := weight_vol m, color_vol_gpu := color_vol m,
           mask_vol_gpu := mask_vol m \<rparr>"

text \<open>\<^verbatim>\<open>for gpu_loop_idx in range(self._n_gpu_loops): self._cuda_integrate(...)\<close>\<close>

definition integrate_gpu :: "TSDFVolume \<Rightarrow> frame \<Rightarrow> error + TSDFVolume" where
  "integrate_gpu self f =
     (let gridDim = \<lparr>dim_x = max_gpu_grid_dim self ! 0, dim_y = max_gpu_grid_dim self ! 1,
                     dim_z = max_gpu_grid_dim self ! 2\<rparr>;
          blockDim = \<lparr>dim_x = max_gpu_threads_per_block self, dim_y = 1, dim_z = 1\<rparr>
      in bind_err
           (fold_err (\<lambda>gpu_loop_idx. cuda_launch (make_kernel_args self f gpu_loop_idx) gridDim blockDim)
              (map int [0..<nat (n_gpu_loops self)]) (device_mem self))
           (\<lambda>m. Inr (with_device_mem self m)))"

section \<open>\<^verbatim>\<open>integrate\<close>, CPU mode\<close>

text \<open>\<^verbatim>\<open>vox2world\<close>, lines 215-224.\<close>

definition vox2world ::
    "real list \<Rightarrow> (int \<times> int \<times> int) list \<Rightarrow> real \<Rightarrow> (real \<times> real \<times> real) list" where
  "vox2world origin coords vox_size =
     map (\<lambda>(i, j, k). (origin ! 0 + vox_size * real_of_int i,
                         origin ! 1 + vox_size * real_of_int j,
                         origin ! 2 + vox_size * real_of_int k)) coords"

text \<open>
  \<^verbatim>\<open>rigid_transform\<close>, lines 478-483: each point gets a fourth coordinate 1, is multiplied
  by the 4x4 matrix, and loses its fourth coordinate again.
\<close>

definition rigid_transform ::
    "(real \<times> real \<times> real) list \<Rightarrow> real list list \<Rightarrow> (real \<times> real \<times> real) list" where
  "rigid_transform xyz transform =
     map (\<lambda>(x, y, z).
        (transform ! 0 ! 0 * x + transform ! 0 ! 1 * y + transform ! 0 ! 2 * z + transform ! 0 ! 3 * 1,
         transform ! 1 ! 0 * x + transform ! 1 ! 1 * y + transform ! 1 ! 2 * z + transform ! 1 ! 3 * 1,
         transform ! 2 ! 0 * x + transform ! 2 ! 1 * y + transform ! 2 ! 2 * z + transform ! 2 ! 3 * 1))
       xyz"

text \<open>
  \<^verbatim>\<open>np.linalg.inv\<close>: the inverse of a square matrix, LinAlgError for a singular or
  non-square one. The model computes it by cofactors, with the determinant expanded
  along the first row.
\<close>

definition drop_nth :: "nat \<Rightarrow> 'a list \<Rightarrow> 'a list" where
  "drop_nth j xs = take j xs @ drop (Suc j) xs"

function det :: "real list list \<Rightarrow> real" where
  "det [] = 1"
| "det (r # rs) =
     sum_list (map (\<lambda>j. (- 1) ^ j * r ! j * det (map (drop_nth j) rs)) [0..<length r])"
  by pat_completeness auto
termination
  by (relation "measure length") auto

definition cofactor :: "real list list \<Rightarrow> nat \<Rightarrow> nat \<Rightarrow> real" where
  "cofactor M i j = (- 1) ^ (i + j) * det (map (drop_nth j) (drop_nth i M))"

definition linalg_inv :: "real list list \<Rightarrow> error + real list list" where
  "linalg_inv M =
     (let n = length M
      in if \<not> list_all (\<lambda>row. length row = n) M then Inl LinAlgError
         else if det M = 0 then Inl LinAlgError
         else Inr (map (\<lambda>i. map (\<lambda>j. cofactor M j i / det M) [0..<n]) [0..<n]))"

text \<open>Applying a step that may raise to every element, in order.\<close>

fun map_err :: "('a \<Rightarrow> error + 'b) \<Rightarrow> 'a list \<Rightarrow> error + 'b list" where
  "map_err f [] = Inr []"
| "map_err f (x # xs) = bind_err (f x) (\<lambda>y. bind_err (map_err f xs) (\<lambda>ys. Inr (y # ys)))"

text \<open>
  \<^verbatim>\<open>cam2pix\<close>, lines 228-238. The function is compiled by Numba with its default error
  model, under which a float division by zero raises ZeroDivisionError.
\<close>

definition cam2pix :: "(real \<times> real \<times> real) list \<Rightarrow> real list list \<Rightarrow> error + (int \<times> int) list" where
  "cam2pix cam_pts intr =
     (let fx = intr ! 0 ! 0; fy = intr ! 1 ! 1; cx = intr ! 0 ! 2; cy = intr ! 1 ! 2
      in map_err (\<lambda>(x, y, z).
           if z = 0 then Inl ZeroDivisionError
           else Inr (np_round (x * fx / z + cx), np_round (y * fy / z + cy))) cam_pts)"

text \<open>
  \<^verbatim>\<open>integrate_tsdf\<close>, lines 242-252. The statement that allocates \<^verbatim>\<open>w_new\<close> is commented
  out (line 247), nothing else binds that name in the function or in the module, and the
  function stores into \<^verbatim>\<open>w_new[i]\<close> in its loop and returns \<^verbatim>\<open>w_new\<close>. Python raises
  NameError at the first of the two it reaches; Numba, which compiles the function at
  its first call, rejects it for the same unbound name. Either way every call raises
  before it returns anything.
\<close>

definition integrate_tsdf ::
    "real list \<Rightarrow> real list \<Rightarrow> real list \<Rightarrow> real list \<Rightarrow> real
       \<Rightarrow> error + (real list \<times> real list \<times> real list)" where
  "integrate_tsdf tsdf_vals occl_vals dist_vals w_old obs_w = Inl (NameError ''w_new'')"

text \<open>
  Lines 307-311 and, for the colour camera, 341-345: the pixel and the camera depth of
  every voxel, in the order of \<open>vox_coords\<close>.
\<close>

definition cpu_project ::
    "TSDFVolume \<Rightarrow> real list list \<Rightarrow> real list list \<Rightarrow> error + ((int \<times> int) list \<times> real list)" where
  "cpu_project self pose intr =
     bind_err (linalg_inv pose) (\<lambda>inv_pose.
       let cam_pts = rigid_transform
                       (vox2world (vol_origin self) (vox_coords self) (voxel_size self)) inv_pose
       in bind_err (cam2pix cam_pts intr) (\<lambda>pix. Inr (pix, map (\<lambda>(x, y, z). z) cam_pts)))"

text \<open>Lines 313-320: \<^verbatim>\<open>valid_pix\<close> and the depth gathered at the valid pixels.\<close>

definition cpu_depth_val :: "frame \<Rightarrow> (int \<times> int) list \<Rightarrow> real list \<Rightarrow> real list" where
  "cpu_depth_val f pix pix_z =
     (case shape2 (depth_im f) of (im_h, im_w) \<Rightarrow>
        map2 (\<lambda>(pix_x, pix_y) z.
                if pix_x \<ge> 0 \<and> pix_x < im_w \<and> pix_y \<ge> 0 \<and> pix_y < im_h \<and> z > 0
                then depth_im f ! nat pix_y ! nat pix_x else 0)
          pix pix_z)"

text \<open>Line 326, \<^verbatim>\<open>valid_pts = (depth_val != 0)\<close>, as the positions that are set.\<close>

definition cpu_valid_pts :: "real list \<Rightarrow> nat list" where
  "cpu_valid_pts depth_val = filter (\<lambda>n. depth_val ! n \<noteq> 0) [0..<length depth_val]"

text \<open>
  Indexing a voxel array with the coordinate columns of the selected rows of
  \<open>vox_coords\<close>: the flat offset of \<open>[x, y, z]\<close> in C order, read and written.
\<close>

definition vol_offset :: "TSDFVolume \<Rightarrow> nat \<Rightarrow> nat" where
  "vol_offset self n =
     (case vox_coords self ! n of (x, y, z) \<Rightarrow>
        nat (x * (vol_dim self ! 1) * (vol_dim self ! 2) + y * (vol_dim self ! 2) + z))"

definition vol_gather :: "TSDFVolume \<Rightarrow> 'a list \<Rightarrow> nat list \<Rightarrow> 'a list" where
  "vol_gather self arr valid = map (\<lambda>n. arr ! vol_offset self n) valid"

definition vol_scatter :: "TSDFVolume \<Rightarrow> 'a list \<Rightarrow> nat list \<Rightarrow> 'a list \<Rightarrow> 'a list" where
  "vol_scatter self arr valid vals =
     fold (\<lambda>(n, v) acc. acc[vol_offset self n := v]) (zip valid vals) arr"

text \<open>Lines 349-359, for one voxel: NumPy's rounding, then the clamp.\<close>

definition cpu_mix_channel :: "real \<Rightarrow> real \<Rightarrow> real \<Rightarrow> real \<Rightarrow> real \<Rightarrow> real" where
  "cpu_mix_channel old new w_old obs_w w_new =
     min 255 (real_of_int (np_round ((w_old * old + obs_w * new) / w_new)))"

definition cpu_color :: "real \<Rightarrow> real \<Rightarrow> real \<Rightarrow> real \<Rightarrow> real \<Rightarrow> real" where
  "cpu_color old_color new_color w_old obs_w w_new =
     (let new_b = cpu_mix_channel (unpack_b old_color) (unpack_b new_color) w_old obs_w w_new;
          new_g = cpu_mix_channel (unpack_g old_color) (unpack_g new_color) w_old obs_w w_new;
          new_r = cpu_mix_channel (unpack_r old_color) (unpack_r new_color) w_old obs_w w_new
      in new_b * color_const + new_g * 256 + new_r)"

text \<open>
  The CPU branch of \<^verbatim>\<open>integrate\<close>, lines 268-272 and 305-364. Nothing is stored in the
  object before the call of \<^verbatim>\<open>integrate_tsdf\<close> at line 335.
\<close>

definition integrate_cpu :: "TSDFVolume \<Rightarrow> frame \<Rightarrow> error + TSDFVolume" where
  "integrate_cpu self f =
     (let color = map (map fold_color) (color_im f)
      in bind_err (cpu_project self (cam_pose f) (cam_intr f)) (\<lambda>(pix, pix_z).
         let depth_val = cpu_depth_val f pix pix_z;
             depth_diff = map2 (\<lambda>d z. d - z) depth_val pix_z;
             valid_pts = cpu_valid_pts depth_val;
             dist_all = map (\<lambda>d. d / trunc_margin self) depth_diff;
             w_old = vol_gather self (weight_vol_cpu self) valid_pts;
             tsdf_vals = vol_gather self (tsdf_vol_cpu self) valid_pts;
             occl_vals = vol_gather self (occl_vol_cpu self) valid_pts;
             valid_dist = map (\<lambda>n. dist_all ! n) valid_pts
         in bind_err (integrate_tsdf tsdf_vals occl_vals valid_dist w_old (obs_weight f))
              (\<lambda>(tsdf_vol_new, w_new, occl_vol_new).
         let self1 = self\<lparr> weight_vol_cpu := vol_scatter self (weight_vol_cpu self) valid_pts w_new,
                            tsdf_vol_cpu := vol_scatter self (tsdf_vol_cpu self) valid_pts tsdf_vol_new,
                            occl_vol_cpu := vol_scatter self (occl_vol_cpu self) valid_pts occl_vol_new \<rparr>
         in bind_err (cpu_project self1 (rgb_pose f) (rgb_intr f)) (\<lambda>(pix, rgb_z).
         let old_color = vol_gather self1 (color_vol_cpu self1) valid_pts
         in bind_err (map_err (\<lambda>n. np_get2 color (snd (pix ! n)) (fst (pix ! n))) valid_pts)
              (\<lambda>new_color.
         let colors = map (\<lambda>((oc, nc), (wo, wn)). cpu_color oc nc wo (obs_weight f) wn)
                        (zip (zip old_color new_color) (zip w_old w_new));
             self2 = self1\<lparr> color_vol_cpu := vol_scatter self1 (color_vol_cpu self1) valid_pts colors \<rparr>;
             old_mask = vol_gather self2 (mask_vol_cpu self2) valid_pts
         in bind_err (map_err (\<lambda>n. np_get2 (mask_im f) (snd (pix ! n)) (fst (pix ! n))) valid_pts)
              (\<lambda>new_mask.
         Inr (self2\<lparr> mask_vol_cpu := vol_scatter self2 (mask_vol_cpu self2) valid_pts
                                          (map2 (\<lambda>a b. a OR b) old_mask new_mask) \<rparr>)))))))"

section \<open>\<^verbatim>\<open>integrate\<close>\<close>

definition integrate :: "TSDFVolume \<Rightarrow> frame \<Rightarrow> error + TSDFVolume" where
  "integrate self f = (if gpu_mode self then integrate_gpu self f else integrate_cpu self f)"

text \<open>A sequence of calls on one object, each on the state the one before left.\<close>

definition integrate_all :: "TSDFVolume \<Rightarrow> frame list \<Rightarrow> error + TSDFVolume" where
  "integrate_all self fs = fold_err (\<lambda>f s. integrate s f) fs self"

section \<open>Reading the grid; a concrete machine\<close>

text \<open>
  The five voxel fields of an object: the device buffers in GPU mode (what
  \<^verbatim>\<open>get_volume\<close> copies back), the host arrays in CPU mode.
\<close>

definition grid_tsdf :: "TSDFVolume \<Rightarrow> real list" where
  "grid_tsdf self = (if gpu_mode self then tsdf_vol_gpu self else tsdf_vol_cpu self)"

definition grid_occl :: "TSDFVolume \<Rightarrow> real list" where
  "grid_occl self = (if gpu_mode self then occl_vol_gpu self else occl_vol_cpu self)"

definition grid_weight :: "TSDFVolume \<Rightarrow> real list" where
  "grid_weight self = (if gpu_mode self then weight_vol_gpu self else weight_vol_cpu self)"

definition grid_color :: "TSDFVolume \<Rightarrow> real list" where
  "grid_color self = (if gpu_mode self then color_vol_gpu self else color_vol_cpu self)"

definition grid_mask :: "TSDFVolume \<Rightarrow> 32 word list" where
  "grid_mask self = (if gpu_mode self then mask_vol_gpu self else mask_vol_cpu self)"

text \<open>
  A machine for the worked examples: PyCUDA present, the limits of a current CUDA device,
  and x86-64's conversion of a non-finite double to \<^verbatim>\<open>int64\<close>.
\<close>

definition x86_cuda_host :: platform where
  "x86_cuda_host =
     \<lparr> FUSION_GPU_MODE = True, MAX_THREADS_PER_BLOCK = 1024,
       MAX_GRID_DIM_X = 2147483647, MAX_GRID_DIM_Y = 65535, MAX_GRID_DIM_Z = 65535,
       astype_int_nonfinite = (\<lambda>_. - 9223372036854775808) \<rparr>"

section \<open>Invariants and proof vocabulary\<close>

text \<open>
  The number of voxels; the facts about an object in GPU mode that the constructor
  establishes and no method changes (buffer sizes and a launch geometry that covers the
  volume); device limits as every CUDA device reports them; and two notions for
  reasoning about kernel launches cell by cell.
\<close>

definition same_lengths :: "gpu_mem \<Rightarrow> gpu_mem \<Rightarrow> bool" where
  "same_lengths m m' \<longleftrightarrow>
     length (tsdf_vol m') = length (tsdf_vol m) \<and> length (occl_vol m') = length (occl_vol m)
     \<and> length (weight_vol m') = length (weight_vol m) \<and> length (color_vol m') = length (color_vol m)
     \<and> length (mask_vol m') = length (mask_vol m)"

definition updates_cells ::
    "(gpu_mem \<Rightarrow> error + gpu_mem) \<Rightarrow> int set \<Rightarrow> (int \<Rightarrow> cell \<Rightarrow> cell) \<Rightarrow> bool" where
  "updates_cells step S h \<longleftrightarrow>
     (\<forall>m m'. step m = Inr m' \<longrightarrow>
        same_lengths m m' \<and>
        (\<forall>v. cell_at m' v = (if int v \<in> S then h (int v) (cell_at m v) else cell_at m v)))"

definition num_voxels :: "TSDFVolume \<Rightarrow> int" where
  "num_voxels self = prod_list (vol_dim self)"

definition gpu_ready :: "TSDFVolume \<Rightarrow> bool" where
  "gpu_ready self \<longleftrightarrow>
     gpu_mode self \<and> length (vol_dim self) = 3
     \<and> length (tsdf_vol_gpu self) = nat (num_voxels self)
     \<and> length (occl_vol_gpu self) = nat (num_voxels self)
     \<and> length (weight_vol_gpu self) = nat (num_voxels self)
     \<and> length (color_vol_gpu self) = nat (num_voxels self)
     \<and> length (mask_vol_gpu self) = nat (num_voxels self)
     \<and> length (max_gpu_grid_dim self) = 3
     \<and> 0 < max_gpu_grid_dim self ! 0 \<and> 0 < max_gpu_grid_dim self ! 1
     \<and> 0 < max_gpu_grid_dim self ! 2 \<and> 0 < max_gpu_threads_per_block self
     \<and> num_voxels self \<le> n_gpu_loops self *
           (max_gpu_grid_dim self ! 0 * max_gpu_grid_dim self ! 1 * max_gpu_grid_dim self ! 2
            * max_gpu_threads_per_block self)"


section \<open>Worked inputs\<close>

text \<open>
  A pinhole camera with unit focal lengths and principal point 0, a camera pose with
  identity rotation at a given position, a frame of one pixel, and the volume of the
  specification's scenarios: bounds \<open>[0, 0.02]\<close> on each axis and \<open>voxel_size = 0.02\<close>, hence
  one voxel, at the world origin, and \<open>trunc_margin = 0.1\<close>. \<open>gpu_vol\<close> and \<open>cpu_vol\<close>
  are that volume, in either mode, with given values in its voxel.
\<close>

definition unit_intr :: "real list list" where
  "unit_intr = [[1, 0, 0], [0, 1, 0], [0, 0, 1]]"

definition pose_at :: "real \<Rightarrow> real \<Rightarrow> real \<Rightarrow> real list list" where
  "pose_at tx ty tz = [[1, 0, 0, tx], [0, 1, 0, ty], [0, 0, 1, tz], [0, 0, 0, 1]]"

definition one_pixel_frame :: "real \<Rightarrow> real list list \<Rightarrow> real list list \<Rightarrow> frame" where
  "one_pixel_frame d pose rpose =
     \<lparr> color_im = [[(100, 150, 200)]], depth_im = [[d]], mask_im = [[3]],
       cam_intr = unit_intr, cam_pose = pose, rgb_intr = unit_intr, rgb_pose = rpose,
       obs_weight = 1 \<rparr>"

definition s1_bounds :: "real list list" where
  "s1_bounds = [[0, 0.02], [0, 0.02], [0, 0.02]]"

definition gpu_vol :: "real \<Rightarrow> real \<Rightarrow> real \<Rightarrow> real \<Rightarrow> 32 word \<Rightarrow> TSDFVolume" where
  "gpu_vol t oc w col msk =
     \<lparr> vol_bnds = [[0, 0.02], [0, 0.02], [0, 0.02]], voxel_size = 0.02, trunc_margin = 0.1,
       vol_dim = [1, 1, 1], vol_origin = [0, 0, 0],
       tsdf_vol_cpu = [1], occl_vol_cpu = [- 100], weight_vol_cpu = [0],
       color_vol_cpu = [0], mask_vol_cpu = [0], gpu_mode = True,
       tsdf_vol_gpu = [t], occl_vol_gpu = [oc], weight_vol_gpu = [w],
       color_vol_gpu = [col], mask_vol_gpu = [msk],
       max_gpu_threads_per_block = 1024, max_gpu_grid_dim = [1, 1, 1], n_gpu_loops = 1,
       vox_coords = [] \<rparr>"

definition cpu_vol :: "real \<Rightarrow> real \<Rightarrow> real \<Rightarrow> real \<Rightarrow> 32 word \<Rightarrow> TSDFVolume" where
  "cpu_vol t oc w col msk =
     \<lparr> vol_bnds = [[0, 0.02], [0, 0.02], [0, 0.02]], voxel_size = 0.02, trunc_margin = 0.1,
       vol_dim = [1, 1, 1], vol_origin = [0, 0, 0],
       tsdf_vol_cpu = [t], occl_vol_cpu = [oc], weight_vol_cpu = [w],
       color_vol_cpu = [col], mask_vol_cpu = [msk], gpu_mode = False,
       tsdf_vol_gpu = [], occl_vol_gpu = [], weight_vol_gpu = [],
       color_vol_gpu = [], mask_vol_gpu = [],
       max_gpu_threads_per_block = 0, max_gpu_grid_dim = [], n_gpu_loops = 0,
       vox_coords = [(0, 0, 0)] \<rparr>"

text \<open>
  Frames of the scenarios. In the first three the depth camera and the colour camera sit
  at \<open>z = -0.01\<close>, so the voxel is at camera depth 0.01; in \<open>frame_at_centre\<close> both poses
  are the identity and the voxel is at the optical centre.
\<close>

definition frame_depth :: "real \<Rightarrow> frame" where
  "frame_depth d = one_pixel_frame d (pose_at 0 0 (- 0.01)) (pose_at 0 0 (- 0.01))"

definition frame_at_centre :: frame where
  "frame_at_centre = one_pixel_frame 1 (pose_at 0 0 0) (pose_at 0 0 0)"

section \<open>Vocabulary of the properties\<close>

text \<open>
  The kernel arguments of a frame with the launch number left at 0: no value a thread
  computes for its voxel depends on the launch number. A voxel is observed in a frame
  when it passes the frustum and depth tests and is not cut off by truncation, so that
  the frame contributes a distance to its running mean.
\<close>

definition frame_args :: "TSDFVolume \<Rightarrow> frame \<Rightarrow> kernel_args" where
  "frame_args self f = make_kernel_args self f 0"

definition voxel_observed :: "TSDFVolume \<Rightarrow> frame \<Rightarrow> nat \<Rightarrow> bool" where
  "voxel_observed self f v =
     (passes_tests (frame_args self f) (int v) \<and> \<not> truncated_away (frame_args self f) (int v))"

definition frame_dist :: "TSDFVolume \<Rightarrow> frame \<Rightarrow> nat \<Rightarrow> real" where
  "frame_dist self f v = kernel_dist (frame_args self f) (int v)"



text \<open>The launch geometry of the one-voxel volume on that machine.\<close>

definition block0 :: dim3 where
  "block0 = \<lparr>dim_x = 0, dim_y = 0, dim_z = 0\<rparr>"

definition thread_no :: "int \<Rightarrow> dim3" where
  "thread_no tx = \<lparr>dim_x = tx, dim_y = 0, dim_z = 0\<rparr>"

definition grid111 :: dim3 where
  "grid111 = \<lparr>dim_x = 1, dim_y = 1, dim_z = 1\<rparr>"

definition block1024 :: dim3 where
  "block1024 = \<lparr>dim_x = 1024, dim_y = 1, dim_z = 1\<rparr>"

text \<open>
  A one-pixel frame of depth 1 whose depth camera is at \<open>(cx, 0, -0.01)\<close> and whose colour
  camera is at \<open>(rx, 0, -0.01)\<close>.
\<close>

definition frame_shifted :: "real \<Rightarrow> real \<Rightarrow> frame" where
  "frame_shifted cx rx = one_pixel_frame 1 (pose_at cx 0 (- 0.01)) (pose_at rx 0 (- 0.01))"


section \<open>Properties of the colour codec\<close>

lemma floor_div_numeral_of_int:
  "\<lfloor>(of_int n :: real) / 65536\<rfloor> = n div 65536"
  "\<lfloor>(of_int n :: real) / 256\<rfloor> = n div 256"
  using floor_divide_of_int_eq [of n 65536, where ?'a = real]
        floor_divide_of_int_eq [of n 256, where ?'a = real] by simp_all

lemma fold_color_of_int:
  "fold_color (of_int r, of_int g, of_int b) = of_int (b * 65536 + g * 256 + r)"
proof -
  have "(of_int b :: real) * color_const + of_int g * 256 + of_int r
          = of_int (b * 65536 + g * 256 + r)"
    by (simp add: color_const_def)
  then show ?thesis
    unfolding fold_color_def by (simp only: prod.case floor_of_int)
qed

text \<open>
  Claim C5. For integer channels \<open>r\<close>, \<open>g\<close>, \<open>b\<close> in \<open>[0, 255]\<close>, unpacking the folded
  value \<open>b*65536 + g*256 + r\<close> by \<open>b' = floor(c/65536)\<close>, \<open>g' = floor((c - b'*65536)/256)\<close>,
  \<open>r' = c - b'*65536 - g'*256\<close> gives back exactly \<open>(r, g, b)\<close>.
\<close>

theorem unpack_fold_color_roundtrip:
  fixes r g b :: int
  assumes "0 \<le> r" "r \<le> 255" "0 \<le> g" "g \<le> 255" "0 \<le> b" "b \<le> 255"
  shows "unpack_color (fold_color (of_int r, of_int g, of_int b))
           = (of_int r, of_int g, of_int b)"
proof -
  let ?c = "b * 65536 + g * 256 + r"
  have B: "?c div 65536 = b" using assms by auto
  have ub: "unpack_b (of_int ?c) = of_int b"
    unfolding unpack_b_def color_const_def using floor_div_numeral_of_int(1) [of ?c] B by simp
  have D: "(of_int ?c :: real) - of_int b * color_const = of_int (g * 256 + r)"
    by (simp add: color_const_def)
  have G: "(g * 256 + r) div 256 = g" using assms by auto
  have ug: "unpack_g (of_int ?c) = of_int g"
    unfolding unpack_g_def ub D using floor_div_numeral_of_int(2) [of "g * 256 + r"] G by simp
  have ur: "unpack_r (of_int ?c) = of_int r"
    unfolding unpack_r_def ub ug by (simp add: color_const_def)
  show ?thesis
    unfolding unpack_color_def fold_color_of_int using ub ug ur by simp
qed

theorem unpack_fold_color_roundtrip_witness:
  "(0::int) \<le> 100 \<and> (100::int) \<le> 255 \<and> (0::int) \<le> 150 \<and> (150::int) \<le> 255
   \<and> (0::int) \<le> 200 \<and> (200::int) \<le> 255
   \<and> unpack_color (fold_color (100, 150, 200)) = (100, 150, 200)"
  using unpack_fold_color_roundtrip [of 100 150 200] by simp

section \<open>\<^verbatim>\<open>reset_visible\<close>\<close>

text \<open>
  Claim C7. For every grid state, \<^verbatim>\<open>reset_visible\<close> sets every element of the weight
  and mask fields to zero (host arrays, and in GPU mode the device buffers) and leaves
  the tsdf, occl and color fields as they were at every voxel, on the host and on the
  device.
\<close>

theorem reset_visible_zeroes_weight_mask:
  "weight_vol_cpu (reset_visible s) = replicate (length (weight_vol_cpu s)) 0
   \<and> mask_vol_cpu (reset_visible s) = replicate (length (mask_vol_cpu s)) 0
   \<and> grid_weight (reset_visible s) = replicate (length (weight_vol_cpu s)) 0
   \<and> grid_mask (reset_visible s) = replicate (length (mask_vol_cpu s)) 0
   \<and> tsdf_vol_cpu (reset_visible s) = tsdf_vol_cpu s
   \<and> occl_vol_cpu (reset_visible s) = occl_vol_cpu s
   \<and> color_vol_cpu (reset_visible s) = color_vol_cpu s
   \<and> tsdf_vol_gpu (reset_visible s) = tsdf_vol_gpu s
   \<and> occl_vol_gpu (reset_visible s) = occl_vol_gpu s
   \<and> color_vol_gpu (reset_visible s) = color_vol_gpu s
   \<and> grid_tsdf (reset_visible s) = grid_tsdf s
   \<and> grid_occl (reset_visible s) = grid_occl s
   \<and> grid_color (reset_visible s) = grid_color s"
  by (simp add: reset_visible_def grid_weight_def grid_mask_def grid_tsdf_def grid_occl_def
        grid_color_def Let_def map_replicate_const)

section \<open>The constructor's checks\<close>

lemma init_bad_shape:
  "\<not> shape_is_3_2 b \<Longrightarrow> TSDFVolume_init plat b vs g = Inl AssertionError"
  by (simp add: TSDFVolume_init_def)

lemma init_negative_dim:
  assumes "shape_is_3_2 b" "vs \<noteq> 0" "row \<in> set b" "\<lceil>(row ! 1 - row ! 0) / vs\<rceil> < 0"
  shows "TSDFVolume_init plat b vs g = Inl ValueError"
proof -
  have "ceil_div_astype_int plat (row ! 1 - row ! 0) vs < 0"
    using assms by (simp add: ceil_div_astype_int_def fdiv_def)
  then have "list_ex (\<lambda>d. d < 0) (map (\<lambda>row. ceil_div_astype_int plat (row ! 1 - row ! 0) vs) b)"
    using assms(3) by (auto simp: list_ex_iff)
  then show ?thesis using assms(1) by (simp add: TSDFVolume_init_def Let_def)
qed

text \<open>
  Claim C8, as the code has it. The constructor fails with AssertionError whenever
  \<open>vol_bnds\<close> does not have shape (3, 2). It has no check of the order of the bounds or
  of the sign of \<open>voxel_size\<close>: for a non-zero \<open>voxel_size\<close> it fails (ValueError, from
  the array allocation) exactly in the cases where some derived dimension
  \<open>ceil((max - min) / voxel_size)\<close> is negative.
\<close>

theorem init_fails_on_shape_or_negative_dim:
  "(\<not> shape_is_3_2 b \<longrightarrow> TSDFVolume_init plat b vs g = Inl AssertionError)
   \<and> (shape_is_3_2 b \<and> vs \<noteq> 0 \<and> row \<in> set b \<and> \<lceil>(row ! 1 - row ! 0) / vs\<rceil> < 0
        \<longrightarrow> TSDFVolume_init plat b vs g = Inl ValueError)"
  using init_bad_shape init_negative_dim by blast

theorem init_fails_on_shape_or_negative_dim_witness:
  "\<not> shape_is_3_2 [[0, 1], [0, 1]]
   \<and> TSDFVolume_init x86_cuda_host [[0, 1], [0, 1]] 1 False = Inl AssertionError
   \<and> shape_is_3_2 [[0, 1], [0, 1], [1, 0]] \<and> (1::real) \<noteq> 0
   \<and> [1, 0] \<in> set [[0, 1], [0, 1], [1, 0::real]]
   \<and> \<lceil>([1, 0::real] ! 1 - [1, 0] ! 0) / 1\<rceil> < 0
   \<and> TSDFVolume_init x86_cuda_host [[0, 1], [0, 1], [1, 0]] 1 False = Inl ValueError"
  using init_fails_on_shape_or_negative_dim
          [of "[[0, 1], [0, 1]]" x86_cuda_host 1 False "[]"]
        init_fails_on_shape_or_negative_dim
          [of "[[0, 1], [0, 1], [1, 0]]" x86_cuda_host 1 False "[1, 0]"]
  by (simp add: shape_is_3_2_def)

text \<open>
  Claim C8 as stated fails: with \<open>min = max\<close> on an axis the constructor returns an
  object (with an empty grid), and with reversed bounds on every axis and a negative
  \<open>voxel_size\<close> it returns an object with an ordinary one-voxel grid.
\<close>

theorem init_accepts_degenerate_bounds:
  "(case TSDFVolume_init x86_cuda_host [[0, 0], [0, 1], [0, 1]] 1 False of
      Inl e \<Rightarrow> False
    | Inr v \<Rightarrow> vol_dim v = [0, 1, 1] \<and> tsdf_vol_cpu v = [])
   \<and> (case TSDFVolume_init x86_cuda_host [[1, 0], [1, 0], [1, 0]] (- 1) False of
      Inl e \<Rightarrow> False
    | Inr v \<Rightarrow> vol_dim v = [1, 1, 1] \<and> tsdf_vol_cpu v = [1] \<and> occl_vol_cpu v = [- 100]
               \<and> weight_vol_cpu v = [0] \<and> vox_coords v = [(0, 0, 0)])"
  by (simp add: TSDFVolume_init_def shape_is_3_2_def ceil_div_astype_int_def fdiv_def
        x86_cuda_host_def Let_def meshgrid_coords_def)

section \<open>The kernel, thread by thread and launch by launch\<close>

lemma bind_err_Inr_iff:
  "bind_err r f = Inr y \<longleftrightarrow> (\<exists>x. r = Inr x \<and> f x = Inr y)"
  by (cases r) (auto simp: bind_err_def)

lemma rd_Inr_iff: "rd xs i = Inr x \<longleftrightarrow> 0 \<le> i \<and> i < int (length xs) \<and> x = xs ! nat i"
  by (auto simp: rd_def)

lemma wr_Inr_iff: "wr xs i x = Inr ys \<longleftrightarrow> 0 \<le> i \<and> i < int (length xs) \<and> ys = xs[nat i := x]"
  by (auto simp: wr_def)

lemma nth_upd_if: "i < length xs \<Longrightarrow> xs[i := x] ! j = (if j = i then x else xs ! j)"
  by simp

lemma kernel_tsdf_color_cells:
  assumes "kernel_tsdf_color a i (kernel_depth_value a i) (kernel_cam_z a i) m = Inr m'"
  shows "same_lengths m m'"
    and "cell_at m' v =
          (if int v = i then
             (case cell_at m v of (t, oc, w, col, msk) \<Rightarrow>
                let oc' = max oc (kernel_depth_diff a i)
                in if truncated_away a i then (t, oc', w, col, msk) else
                let obs_w = a_other_params a ! 5;
                    w' = w + obs_w;
                    t' = (t * w + obs_w * kernel_dist a i) / w';
                    col' = (if pixel_outside a (kernel_rgb_pixel a i) (kernel_cam_z a i) then col
                            else kernel_color col (a_color_im a ! nat (pixel_offset a (kernel_rgb_pixel a i)))
                                   w obs_w w')
                in (t', oc', w', col', msk))
           else cell_at m v)"
  using assms
  unfolding kernel_tsdf_color_def Let_def
  by (auto simp: bind_err_Inr_iff rd_Inr_iff wr_Inr_iff same_lengths_def cell_at_def
        kernel_depth_diff_def truncated_away_def kernel_dist_def pixel_outside_def
        kernel_rgb_pixel_def pixel_offset_def
        split: if_splits prod.splits)

lemma integrate_kernel_cells:
  assumes "integrate_kernel a g b bi ti m = Inr m'"
    and "i = thread_voxel_idx a g b bi ti"
  shows "same_lengths m m'"
    and "cell_at m' v = (if int v = i then thread_step a i (cell_at m v) else cell_at m v)"
proof -
  let ?dv = "kernel_depth_value a i" and ?z = "kernel_cam_z a i"
  consider (skip) "i > kernel_num_voxels a \<or> \<not> passes_tests a i"
    | (go) "\<not> i > kernel_num_voxels a" "passes_tests a i" by blast
  then have "same_lengths m m' \<and>
     cell_at m' v = (if int v = i then thread_step a i (cell_at m v) else cell_at m v)"
  proof cases
    case skip
    then have "m' = m"
      using assms unfolding integrate_kernel_def Let_def
      by (auto simp: bind_err_Inr_iff rd_Inr_iff passes_tests_def pixel_outside_def
            kernel_pixel_def kernel_cam_pt_def kernel_cam_z_def kernel_depth_value_def
            pixel_offset_def split: if_splits prod.splits)
    with skip show ?thesis
      by (auto simp: same_lengths_def thread_step_def voxel_step_def split: prod.splits)
  next
    case go
    from go assms obtain m1 where
      m1: "0 \<le> i" "i < int (length (mask_vol m))"
          "m1 = m\<lparr>mask_vol := (mask_vol m)[nat i := mask_vol m ! nat i OR
                     a_mask_im a ! nat (pixel_offset a (kernel_pixel a i))]\<rparr>"
          "kernel_tsdf_color a i ?dv ?z m1 = Inr m'"
      unfolding integrate_kernel_def Let_def
      by (auto simp: bind_err_Inr_iff rd_Inr_iff wr_Inr_iff passes_tests_def pixel_outside_def
            kernel_pixel_def kernel_cam_pt_def kernel_cam_z_def kernel_depth_value_def
            pixel_offset_def split: if_splits prod.splits)
    have L: "same_lengths m m1" using m1 by (simp add: same_lengths_def)
    have C: "cell_at m1 v = (if int v = i then
               (case cell_at m v of (t, oc, w, col, msk) \<Rightarrow>
                 (t, oc, w, col, msk OR a_mask_im a ! nat (pixel_offset a (kernel_pixel a i))))
               else cell_at m v)"
      using m1 by (auto simp: cell_at_def)
    from kernel_tsdf_color_cells [OF m1(4)] L C go show ?thesis
      by (auto simp: same_lengths_def thread_step_def voxel_step_def Let_def split: prod.splits)
  qed
  then show "same_lengths m m'"
    and "cell_at m' v = (if int v = i then thread_step a i (cell_at m v) else cell_at m v)"
    by blast+
qed

lemma updates_cellsD:
  assumes "updates_cells step S h" "step m = Inr m'"
  shows "same_lengths m m'"
    and "cell_at m' v = (if int v \<in> S then h (int v) (cell_at m v) else cell_at m v)"
  using assms unfolding updates_cells_def by blast+

lemma same_lengths_trans: "same_lengths m m1 \<Longrightarrow> same_lengths m1 m2 \<Longrightarrow> same_lengths m m2"
  by (simp add: same_lengths_def)

lemma same_lengths_refl: "same_lengths m m"
  by (simp add: same_lengths_def)

lemma fold_err_cells:
  assumes run: "fold_err f xs m = Inr m'"
    and step: "\<forall>x\<in>set xs. updates_cells (f x) (S x) h"
    and dist: "distinct xs"
    and disj: "\<forall>x\<in>set xs. \<forall>y\<in>set xs. x \<noteq> y \<longrightarrow> S x \<inter> S y = {}"
  shows "same_lengths m m' \<and>
         (\<forall>v. cell_at m' v = (if int v \<in> (\<Union>x\<in>set xs. S x) then h (int v) (cell_at m v)
                               else cell_at m v))"
  using assms
proof (induction xs arbitrary: m)
  case Nil
  then show ?case by (simp add: same_lengths_refl)
next
  case (Cons x xs)
  from Cons.prems(1) obtain m1 where m1: "f x m = Inr m1" "fold_err f xs m1 = Inr m'"
    by (auto simp: bind_err_Inr_iff)
  have ux: "updates_cells (f x) (S x) h" using Cons.prems(2) by simp
  have s1: "same_lengths m m1" by (rule updates_cellsD(1) [OF ux m1(1)])
  have c1: "cell_at m1 v = (if int v \<in> S x then h (int v) (cell_at m v) else cell_at m v)" for v
    by (rule updates_cellsD(2) [OF ux m1(1)])
  have st: "\<forall>y\<in>set xs. updates_cells (f y) (S y) h" using Cons.prems(2) by simp
  have di: "distinct xs" and xn: "x \<notin> set xs" using Cons.prems(3) by simp_all
  have dj: "\<forall>x\<in>set xs. \<forall>y\<in>set xs. x \<noteq> y \<longrightarrow> S x \<inter> S y = {}"
    using Cons.prems(4) by simp
  have dis: "S x \<inter> S y = {}" if "y \<in> set xs" for y
  proof -
    have "x \<noteq> y" using that xn by blast
    then show ?thesis using Cons.prems(4) that by simp
  qed
  note IH = Cons.IH [OF m1(2) st di dj]
  have s2: "same_lengths m1 m'" using IH by blast
  have c2: "cell_at m' v = (if int v \<in> (\<Union>x\<in>set xs. S x) then h (int v) (cell_at m1 v)
                               else cell_at m1 v)" for v
    using IH by blast
  have "cell_at m' v = (if int v \<in> (\<Union>x\<in>set (x # xs). S x) then h (int v) (cell_at m v)
                               else cell_at m v)" for v
  proof (cases "int v \<in> S x")
    case True
    then have "int v \<notin> (\<Union>x\<in>set xs. S x)" using dis by blast
    then have "cell_at m' v = cell_at m1 v" using c2 [of v] by simp
    then show ?thesis using c1 [of v] True by simp
  next
    case False
    then have "cell_at m1 v = cell_at m v" using c1 [of v] by simp
    then show ?thesis using c2 [of v] False by simp
  qed
  then show ?case using same_lengths_trans [OF s1 s2] by blast
qed

lemma concat_blocks:
  "concat (map (\<lambda>i. map (\<lambda>j. h (i * m + j)) [0..<m]) [0..<n]) = map h [0..<n * m]"
proof (induction n)
  case 0
  then show ?case by simp
next
  case (Suc n)
  have A: "[n * m..<n * m + m] = map (\<lambda>j. n * m + j) [0..<m]"
    using map_add_upt [of "n * m" m] by (simp add: add.commute)
  have B: "[0..<n * m + m] = [0..<n * m] @ [n * m..<n * m + m]"
    using upt_add_eq_append [of 0 "n * m" m] by simp
  have "map h [0..<Suc n * m] = map h [0..<n * m] @ map (\<lambda>j. h (n * m + j)) [0..<m]"
    unfolding mult_Suc add.commute [of m] B map_append A by (simp add: comp_def)
  with Suc show ?case by simp
qed

lemma c_int_of_int [simp]: "c_int (real_of_int n) = n"
  by (simp add: c_int_def)

lemma concat_blocks3:
  "concat (map (\<lambda>z. concat (map (\<lambda>y. concat (map (\<lambda>x. map (\<lambda>t.
       h (((z * gy + y) * gx + x) * T + t)) [0..<T]) [0..<gx])) [0..<gy])) [0..<gz])
   = map h [0..<gz * (gy * (gx * T))]"
proof -
  have inner: "concat (map (\<lambda>x. map (\<lambda>t. h (((z * gy + y) * gx + x) * T + t)) [0..<T]) [0..<gx])
        = map (\<lambda>k. h ((z * gy + y) * (gx * T) + k)) [0..<gx * T]" for z y
  proof -
    have eq: "((z * gy + y) * gx + x) * T + t = (z * gy + y) * (gx * T) + (x * T + t)" for x t
      by (simp add: algebra_simps)
    show ?thesis
      unfolding eq by (rule concat_blocks [of "\<lambda>k. h ((z * gy + y) * (gx * T) + k)" T gx])
  qed
  have middle: "concat (map (\<lambda>y. map (\<lambda>k. h ((z * gy + y) * (gx * T) + k)) [0..<gx * T]) [0..<gy])
        = map (\<lambda>j. h (z * (gy * (gx * T)) + j)) [0..<gy * (gx * T)]" for z
  proof -
    have eq: "(z * gy + y) * (gx * T) + k = z * (gy * (gx * T)) + (y * (gx * T) + k)" for y k
      by (simp add: algebra_simps)
    show ?thesis
      unfolding eq by (rule concat_blocks [of "\<lambda>j. h (z * (gy * (gx * T)) + j)" "gx * T" gy])
  qed
  show ?thesis
    unfolding inner middle
    by (rule concat_blocks [of h "gy * (gx * T)" gz])
qed

lemma thread_voxel_idx_nat:
  assumes "c_int (a_other_params a ! 0) = l"
    and "0 \<le> dim_x g" "0 \<le> dim_y g" "0 \<le> dim_x b"
  shows "thread_voxel_idx a g b \<lparr>dim_x = int x, dim_y = int y, dim_z = int z\<rparr>
           \<lparr>dim_x = int t, dim_y = 0, dim_z = 0\<rparr>
         = l * dim_x g * dim_y g * dim_z g * dim_x b
           + int (((z * nat (dim_y g) + y) * nat (dim_x g) + x) * nat (dim_x b) + t)"
  using assms by (simp add: thread_voxel_idx_def Let_def algebra_simps)

lemma launch_voxel_indices:
  assumes "c_int (a_other_params a ! 0) = l"
    and "0 \<le> dim_x g" "0 \<le> dim_y g" "0 \<le> dim_x b"
  shows "map (\<lambda>(bi, ti). thread_voxel_idx a g b bi ti) (launch_threads g b)
         = map (\<lambda>k. l * dim_x g * dim_y g * dim_z g * dim_x b + int k)
             [0..<nat (dim_z g) * (nat (dim_y g) * (nat (dim_x g) * nat (dim_x b)))]"
  unfolding launch_threads_def map_concat map_map comp_def prod.case
    thread_voxel_idx_nat [OF assms]
  by (rule concat_blocks3)

lemma set_map_offset: "set (map (\<lambda>k. base + int k) [0..<n]) = {base ..< base + int n}"
proof (intro set_eqI iffI)
  fix i assume "i \<in> set (map (\<lambda>k. base + int k) [0..<n])"
  then show "i \<in> {base ..< base + int n}" by auto
next
  fix i assume i: "i \<in> {base ..< base + int n}"
  then have "i = base + int (nat (i - base))" "nat (i - base) < n" by auto
  then have "i \<in> (\<lambda>k. base + int k) ` {0..<n}" by (metis atLeastLessThan_iff image_eqI le0)
  then show "i \<in> set (map (\<lambda>k. base + int k) [0..<n])" by simp
qed

lemma cuda_launch_cells:
  assumes l: "c_int (a_other_params a ! 0) = l"
    and nn: "0 \<le> dim_x g" "0 \<le> dim_y g" "0 \<le> dim_z g" "0 \<le> dim_x b"
  shows "updates_cells (cuda_launch a g b)
           {l * (dim_x g * dim_y g * dim_z g * dim_x b) ..<
            (l + 1) * (dim_x g * dim_y g * dim_z g * dim_x b)}
           (thread_step a)"
  unfolding updates_cells_def
proof (intro allI impI)
  fix m m'
  assume run: "cuda_launch a g b m = Inr m'"
  let ?idx = "\<lambda>(bi, ti). thread_voxel_idx a g b bi ti"
  let ?xs = "launch_threads g b"
  let ?n = "nat (dim_z g) * (nat (dim_y g) * (nat (dim_x g) * nat (dim_x b)))"
  let ?base = "l * dim_x g * dim_y g * dim_z g * dim_x b"
  have idxs: "map ?idx ?xs = map (\<lambda>k. ?base + int k) [0..<?n]"
    by (rule launch_voxel_indices [OF l nn(1,2,4)])
  have "distinct (map (\<lambda>k. ?base + int k) [0..<?n])"
    by (simp add: distinct_map inj_on_def)
  then have dm: "distinct (map ?idx ?xs)" using idxs by simp
  then have dx: "distinct ?xs" and inj: "inj_on ?idx (set ?xs)"
    by (simp_all add: distinct_map)
  have step: "\<forall>x\<in>set ?xs. updates_cells ((\<lambda>(bi, ti). integrate_kernel a g b bi ti) x) {?idx x} (thread_step a)"
  proof
    fix x assume "x \<in> set ?xs"
    obtain bi ti where x: "x = (bi, ti)" by (cases x)
    show "updates_cells ((\<lambda>(bi, ti). integrate_kernel a g b bi ti) x) {?idx x} (thread_step a)"
      unfolding updates_cells_def x prod.case
    proof (intro allI impI conjI)
      fix m m' assume k: "integrate_kernel a g b bi ti m = Inr m'"
      show "same_lengths m m'" by (rule integrate_kernel_cells(1) [OF k refl])
      fix v
      show "cell_at m' v = (if int v \<in> {thread_voxel_idx a g b bi ti}
              then thread_step a (int v) (cell_at m v) else cell_at m v)"
        using integrate_kernel_cells(2) [OF k refl, of v] by auto
    qed
  qed
  have disj: "\<forall>x\<in>set ?xs. \<forall>y\<in>set ?xs. x \<noteq> y \<longrightarrow> {?idx x} \<inter> {?idx y} = {}"
    using inj by (auto simp: inj_on_def)
  have U: "(\<Union>x\<in>set ?xs. {?idx x}) = set (map ?idx ?xs)" by auto
  have nint: "int ?n = dim_z g * (dim_y g * (dim_x g * dim_x b))"
    using nn by simp
  have S: "set (map ?idx ?xs) = {l * (dim_x g * dim_y g * dim_z g * dim_x b) ..<
            (l + 1) * (dim_x g * dim_y g * dim_z g * dim_x b)}"
  proof -
    have "set (map (\<lambda>k. ?base + int k) [0..<?n]) = {?base ..< ?base + int ?n}"
      by (rule set_map_offset)
    then show ?thesis unfolding idxs nint by (simp add: algebra_simps)
  qed
  from fold_err_cells [OF run [unfolded cuda_launch_def] step dx disj]
  show "same_lengths m m' \<and>
        (\<forall>v. cell_at m' v =
             (if int v \<in> {l * (dim_x g * dim_y g * dim_z g * dim_x b) ..<
                (l + 1) * (dim_x g * dim_y g * dim_z g * dim_x b)}
              then thread_step a (int v) (cell_at m v) else cell_at m v))"
    unfolding U S by blast
qed

lemma args_fields:
  "a_vol_dim (make_kernel_args self f l) = map real_of_int (vol_dim self)"
  "a_vol_origin (make_kernel_args self f l) = vol_origin self"
  "a_cam_intr (make_kernel_args self f l) = concat (cam_intr f)"
  "a_cam_pose (make_kernel_args self f l) = concat (cam_pose f)"
  "a_rgb_intr (make_kernel_args self f l) = concat (rgb_intr f)"
  "a_rgb_pose (make_kernel_args self f l) = concat (rgb_pose f)"
  "a_color_im (make_kernel_args self f l) = concat (map (map fold_color) (color_im f))"
  "a_depth_im (make_kernel_args self f l) = concat (depth_im f)"
  "a_mask_im (make_kernel_args self f l) = concat (mask_im f)"
  by (simp_all add: make_kernel_args_def split: prod.splits)

lemma args_other:
  "a_other_params (make_kernel_args self f l) ! 0 = real_of_int l"
  "a_other_params (make_kernel_args self f l) ! 1 = voxel_size self"
  "a_other_params (make_kernel_args self f l) ! 2 = real_of_int (fst (shape2 (depth_im f)))"
  "a_other_params (make_kernel_args self f l) ! 3 = real_of_int (snd (shape2 (depth_im f)))"
  "a_other_params (make_kernel_args self f l) ! 4 = trunc_margin self"
  "a_other_params (make_kernel_args self f l) ! 5 = obs_weight f"
  by (simp_all add: make_kernel_args_def split: prod.splits)

lemma args_other_Suc:
  "a_other_params (make_kernel_args self f l) ! Suc 0 = voxel_size self"
  by (simp add: make_kernel_args_def split: prod.splits)

lemma args_loop_idx: "c_int (a_other_params (make_kernel_args self f l) ! 0) = l"
  by (simp add: args_other)

lemma list3: "length xs = 3 \<Longrightarrow> xs = [xs ! 0, xs ! 1, xs ! 2]"
  by (cases xs; simp; rename_tac x ys; case_tac ys; simp; rename_tac y zs; case_tac zs; simp)

lemma args_num_voxels:
  assumes "length (vol_dim self) = 3"
  shows "kernel_num_voxels (make_kernel_args self f l) = num_voxels self"
proof -
  have "prod_list (vol_dim self) = vol_dim self ! 0 * vol_dim self ! 1 * vol_dim self ! 2"
    by (subst list3 [OF assms]) simp
  then show ?thesis
    using assms by (simp add: kernel_num_voxels_def args_fields num_voxels_def)
qed

lemma grid_coords_loop_indep:
  "voxel_grid_coords (make_kernel_args self f l) v = voxel_grid_coords (make_kernel_args self f 0) v"
  by (simp add: voxel_grid_coords_def args_fields)

lemma world_pt_loop_indep:
  "voxel_world_pt (make_kernel_args self f l) v = voxel_world_pt (make_kernel_args self f 0) v"
  by (simp add: voxel_world_pt_def grid_coords_loop_indep [of self f l] args_fields args_other args_other_Suc)

lemma observers_loop_indep:
  "kernel_cam_pt (make_kernel_args self f l) v = kernel_cam_pt (make_kernel_args self f 0) v"
  "kernel_rgb_pixel (make_kernel_args self f l) v = kernel_rgb_pixel (make_kernel_args self f 0) v"
  "pixel_outside (make_kernel_args self f l) px z = pixel_outside (make_kernel_args self f 0) px z"
  "pixel_offset (make_kernel_args self f l) px = pixel_offset (make_kernel_args self f 0) px"
  by (simp_all add: kernel_cam_pt_def kernel_rgb_pixel_def pixel_outside_def pixel_offset_def
        world_pt_loop_indep [of self f l] args_fields args_other args_other_Suc)

lemma observers_loop_indep2:
  "kernel_cam_z (make_kernel_args self f l) v = kernel_cam_z (make_kernel_args self f 0) v"
  "kernel_pixel (make_kernel_args self f l) v = kernel_pixel (make_kernel_args self f 0) v"
  by (simp_all add: kernel_cam_z_def kernel_pixel_def observers_loop_indep(1) [of self f l] args_fields)

lemma observers_loop_indep3:
  "kernel_depth_value (make_kernel_args self f l) v = kernel_depth_value (make_kernel_args self f 0) v"
  by (simp add: kernel_depth_value_def observers_loop_indep2(2) [of self f l]
        observers_loop_indep(4) [of self f l] args_fields)

lemma observers_loop_indep4:
  "passes_tests (make_kernel_args self f l) v = passes_tests (make_kernel_args self f 0) v"
  "kernel_depth_diff (make_kernel_args self f l) v = kernel_depth_diff (make_kernel_args self f 0) v"
  by (simp_all add: passes_tests_def kernel_depth_diff_def observers_loop_indep3 [of self f l]
        observers_loop_indep2 [of self f l] observers_loop_indep(3) [of self f l])

lemma observers_loop_indep5:
  "truncated_away (make_kernel_args self f l) v = truncated_away (make_kernel_args self f 0) v"
  "kernel_dist (make_kernel_args self f l) v = kernel_dist (make_kernel_args self f 0) v"
  by (simp_all add: truncated_away_def kernel_dist_def observers_loop_indep4(2) [of self f l] args_other)

lemma voxel_step_loop_indep:
  "voxel_step (make_kernel_args self f l) v c = voxel_step (make_kernel_args self f 0) v c"
  unfolding voxel_step_def
    observers_loop_indep4 [of self f l] observers_loop_indep5 [of self f l]
    observers_loop_indep2 [of self f l] observers_loop_indep(2,3,4) [of self f l]
    args_fields args_other args_other_Suc
  by (rule refl)

lemma thread_step_loop_indep:
  "length (vol_dim self) = 3 \<Longrightarrow>
   thread_step (make_kernel_args self f l) v c = thread_step (make_kernel_args self f 0) v c"
  by (simp add: thread_step_def args_num_voxels voxel_step_loop_indep [of self f l])

lemma device_mem_with [simp]: "device_mem (with_device_mem self m) = m"
  by (simp add: device_mem_def with_device_mem_def)

lemma block_intervals_disjoint:
  fixes c :: int
  assumes "0 \<le> c" "l \<noteq> l'"
  shows "{l * c ..< (l + 1) * c} \<inter> {l' * c ..< (l' + 1) * c} = {}"
proof -
  have A: "(l + 1) * c \<le> l' * c" if "l < l'" for l l' :: int
    using that assms(1) by (intro mult_right_mono) auto
  consider "l < l'" | "l' < l" using assms(2) by linarith
  then show ?thesis
  proof cases
    case 1
    then show ?thesis using A [of l l'] by auto
  next
    case 2
    then show ?thesis using A [of l' l] by auto
  qed
qed

lemma block_intervals_cover:
  fixes c :: int
  assumes "0 < c" "0 \<le> i" "i < int n * c"
  shows "i \<in> (\<Union>l\<in>set (map int [0..<n]). {l * c ..< (l + 1) * c})"
proof -
  let ?l = "i div c"
  have l0: "0 \<le> ?l" using assms by (simp add: pos_imp_zdiv_nonneg_iff)
  have md: "i = ?l * c + i mod c" by simp
  have m0: "0 \<le> i mod c" and mc: "i mod c < c" using assms(1) by simp_all
  have lo: "?l * c \<le> i" using md m0 by linarith
  have ln: "?l < int n"
  proof (rule ccontr)
    assume "\<not> ?l < int n"
    then have "int n * c \<le> ?l * c" using assms(1) by (intro mult_right_mono) auto
    then show False using lo assms(3) by linarith
  qed
  have "i < ?l * c + c" using md mc by linarith
  then have hi: "i < (?l + 1) * c" by (simp add: algebra_simps)
  have "?l \<in> set (map int [0..<n])"
  proof -
    have "nat ?l < n" using l0 ln by linarith
    moreover have "int (nat ?l) = ?l" using l0 by simp
    ultimately show ?thesis by (metis atLeastLessThan_iff image_eqI le0 list.set_map set_upt)
  qed
  then show ?thesis using lo hi by auto
qed

lemma integrate_gpu_run:
  assumes r: "gpu_ready self" and run: "integrate_gpu self f = Inr self'"
  shows "self' = with_device_mem self (device_mem self')"
    and "same_lengths (device_mem self) (device_mem self')"
    and "int v < num_voxels self \<Longrightarrow>
         cell_at (device_mem self') v =
           voxel_step (make_kernel_args self f 0) (int v) (cell_at (device_mem self) v)"
proof -
  let ?g = "\<lparr>dim_x = max_gpu_grid_dim self ! 0, dim_y = max_gpu_grid_dim self ! 1,
             dim_z = max_gpu_grid_dim self ! 2\<rparr>"
  let ?b = "\<lparr>dim_x = max_gpu_threads_per_block self, dim_y = 1, dim_z = 1\<rparr>"
  let ?c = "max_gpu_grid_dim self ! 0 * max_gpu_grid_dim self ! 1 * max_gpu_grid_dim self ! 2
            * max_gpu_threads_per_block self"
  let ?a = "make_kernel_args self f"
  let ?ls = "map int [0..<nat (n_gpu_loops self)]"
  let ?S = "\<lambda>l::int. {l * ?c ..< (l + 1) * ?c}"
  from r have pos: "0 < max_gpu_grid_dim self ! 0" "0 < max_gpu_grid_dim self ! 1"
      "0 < max_gpu_grid_dim self ! 2" "0 < max_gpu_threads_per_block self"
    and len3: "length (vol_dim self) = 3"
    and cover: "num_voxels self \<le> n_gpu_loops self * ?c"
    by (simp_all add: gpu_ready_def)
  have cpos: "0 < ?c" using pos by simp
  from run obtain m' where
    fold: "fold_err (\<lambda>l. cuda_launch (?a l) ?g ?b) ?ls (device_mem self) = Inr m'"
    and self': "self' = with_device_mem self m'"
    unfolding integrate_gpu_def Let_def by (auto simp: bind_err_Inr_iff)
  have step: "\<forall>l\<in>set ?ls. updates_cells (cuda_launch (?a l) ?g ?b) (?S l) (thread_step (?a 0))"
  proof
    fix l assume "l \<in> set ?ls"
    have "updates_cells (cuda_launch (?a l) ?g ?b)
            {l * (dim_x ?g * dim_y ?g * dim_z ?g * dim_x ?b) ..<
             (l + 1) * (dim_x ?g * dim_y ?g * dim_z ?g * dim_x ?b)} (thread_step (?a l))"
      by (rule cuda_launch_cells [OF args_loop_idx]) (use pos in simp_all)
    moreover have "thread_step (?a l) = thread_step (?a 0)"
      by (intro ext) (rule thread_step_loop_indep [OF len3])
    ultimately show "updates_cells (cuda_launch (?a l) ?g ?b) (?S l) (thread_step (?a 0))"
      by simp
  qed
  have dist: "distinct ?ls" by (simp add: distinct_map inj_on_def)
  have disj: "\<forall>x\<in>set ?ls. \<forall>y\<in>set ?ls. x \<noteq> y \<longrightarrow> ?S x \<inter> ?S y = {}"
    using block_intervals_disjoint [of ?c] cpos by (intro ballI impI) simp
  note R = fold_err_cells [OF fold step dist disj]
  show "self' = with_device_mem self (device_mem self')" using self' by simp
  show "same_lengths (device_mem self) (device_mem self')" using R self' by simp
  assume v: "int v < num_voxels self"
  have "int v < int (nat (n_gpu_loops self)) * ?c"
  proof -
    have "0 < n_gpu_loops self * ?c" using v cover by linarith
    then have "0 < n_gpu_loops self" using cpos by (rule zero_less_mult_pos2)
    then have "int (nat (n_gpu_loops self)) = n_gpu_loops self" by simp
    then show ?thesis using v cover by (simp only:)
  qed
  then have "int v \<in> (\<Union>l\<in>set ?ls. ?S l)"
    by (intro block_intervals_cover [OF cpos]) simp_all
  then have "cell_at m' v = thread_step (?a 0) (int v) (cell_at (device_mem self) v)"
    using R by simp
  moreover have "\<not> int v > kernel_num_voxels (?a 0)"
    using v by (simp add: args_num_voxels [OF len3])
  ultimately show "cell_at (device_mem self') v =
           voxel_step (make_kernel_args self f 0) (int v) (cell_at (device_mem self) v)"
    using self' by (simp add: thread_step_def)
qed

lemma integrate_gpu_ready:
  assumes "gpu_ready self" "integrate_gpu self f = Inr self'"
  shows "gpu_ready self'" "num_voxels self' = num_voxels self"
    "voxel_size self' = voxel_size self" "trunc_margin self' = trunc_margin self"
    "vol_dim self' = vol_dim self" "vol_origin self' = vol_origin self"
proof -
  note R = integrate_gpu_run(1,2) [OF assms]
  have E: "self' = with_device_mem self (device_mem self')" by (rule R(1))
  have cfg: "vol_dim self' = vol_dim self" "gpu_mode self' = gpu_mode self"
    "max_gpu_grid_dim self' = max_gpu_grid_dim self"
    "max_gpu_threads_per_block self' = max_gpu_threads_per_block self"
    "n_gpu_loops self' = n_gpu_loops self" "voxel_size self' = voxel_size self"
    "trunc_margin self' = trunc_margin self" "vol_origin self' = vol_origin self"
    by (subst E, simp add: with_device_mem_def)+
  show "num_voxels self' = num_voxels self" by (simp add: num_voxels_def cfg)
  show "voxel_size self' = voxel_size self" "trunc_margin self' = trunc_margin self"
    "vol_dim self' = vol_dim self" "vol_origin self' = vol_origin self" by (rule cfg)+
  show "gpu_ready self'"
    using assms(1) R(2) cfg
    by (simp add: gpu_ready_def same_lengths_def device_mem_def num_voxels_def)
qed





section \<open>Launches on the one-voxel volume\<close>

lemma fold_err_skip:
  "(\<And>x m. x \<in> set xs \<Longrightarrow> f x m = Inr m) \<Longrightarrow> fold_err f xs m = Inr m"
  by (induction xs arbitrary: m) (simp_all add: bind_err_def)

lemma launch_threads_one_block:
  "launch_threads grid111 block1024 = map (\<lambda>tx. (block0, thread_no (int tx))) [0..<1024]"
proof -
  have "nat (dim_x grid111) = Suc 0" "nat (dim_y grid111) = Suc 0" "nat (dim_z grid111) = Suc 0"
    "nat (dim_x block1024) = 1024"
    by (simp_all add: grid111_def block1024_def)
  moreover have "[0..<Suc 0] = [0]" by simp
  ultimately show ?thesis
    unfolding launch_threads_def by (simp add: block0_def thread_no_def del: upt_Suc)
qed

lemma upt_1024: "[0..<1024] = 0 # Suc 0 # [Suc (Suc 0)..<1024]"
proof -
  have "[0..<1024] = 0 # [Suc 0..<1024]" by (rule upt_conv_Cons) simp
  moreover have "[Suc 0..<1024] = Suc 0 # [Suc (Suc 0)..<1024]" by (rule upt_conv_Cons) simp
  ultimately show ?thesis by (simp only:)
qed

lemma bind_err_Inr_right: "bind_err r Inr = r"
  by (cases r) (simp_all add: bind_err_def)

lemma one_voxel_launch:
  assumes nv: "kernel_num_voxels a = 1" and l: "c_int (a_other_params a ! 0) = 0"
  shows "cuda_launch a grid111 block1024 m =
           bind_err (integrate_kernel a grid111 block1024 block0 (thread_no 0) m)
             (integrate_kernel a grid111 block1024 block0 (thread_no 1))"
proof -
  let ?f = "\<lambda>(bi, ti). integrate_kernel a grid111 block1024 bi ti"
  let ?rest = "map (\<lambda>tx. (block0, thread_no (int tx))) [Suc (Suc 0)..<1024]"
  have skip: "fold_err ?f ?rest m' = Inr m'" for m'
  proof (rule fold_err_skip)
    fix x m
    assume "x \<in> set ?rest"
    then obtain tx where x: "x = (block0, thread_no (int tx))" and tx: "2 \<le> tx" by auto
    have "thread_voxel_idx a grid111 block1024 block0 (thread_no (int tx)) = int tx"
      by (simp add: thread_voxel_idx_def l grid111_def block1024_def block0_def thread_no_def)
    then show "?f x m = Inr m"
      using tx by (simp add: x integrate_kernel_def nv)
  qed
  have "fold_err ?f ((block0, thread_no 0) # (block0, thread_no 1) # ?rest) m
        = bind_err (integrate_kernel a grid111 block1024 block0 (thread_no 0) m)
            (integrate_kernel a grid111 block1024 block0 (thread_no 1))"
  proof (cases "integrate_kernel a grid111 block1024 block0 (thread_no 0) m")
    case (Inl e)
    then show ?thesis by (simp add: bind_err_def)
  next
    case (Inr m1)
    show ?thesis
    proof (cases "integrate_kernel a grid111 block1024 block0 (thread_no 1) m1")
      case (Inl e)
      then show ?thesis using Inr by (simp add: bind_err_def)
    next
      case m2: (Inr m2)
      then show ?thesis using Inr skip [of m2] by (simp add: bind_err_def)
    qed
  qed
  then show ?thesis
    unfolding cuda_launch_def launch_threads_one_block upt_1024
    by (simp del: upt_Suc)
qed

lemma one_voxel_integrate:
  assumes "max_gpu_grid_dim self = [1, 1, 1]" "max_gpu_threads_per_block self = 1024"
    "n_gpu_loops self = 1" "vol_dim self = [1, 1, 1]" "gpu_mode self"
  shows "integrate self f =
           bind_err (bind_err (integrate_kernel (make_kernel_args self f 0) grid111 block1024
                                 block0 (thread_no 0) (device_mem self))
                       (integrate_kernel (make_kernel_args self f 0) grid111 block1024
                                 block0 (thread_no 1)))
             (\<lambda>m. Inr (with_device_mem self m))"
proof -
  have nv: "kernel_num_voxels (make_kernel_args self f 0) = 1"
    using assms(4) by (simp add: args_num_voxels num_voxels_def)
  have one: "fold_err k [0::int] m = k 0 m" for k :: "int \<Rightarrow> gpu_mem \<Rightarrow> error + gpu_mem" and m
    by (cases "k 0 m") (simp_all add: bind_err_def)
  have g: "\<lparr>dim_x = max_gpu_grid_dim self ! 0, dim_y = max_gpu_grid_dim self ! 1,
             dim_z = max_gpu_grid_dim self ! 2\<rparr> = grid111"
    and b: "\<lparr>dim_x = max_gpu_threads_per_block self, dim_y = 1, dim_z = 1\<rparr> = block1024"
    and ls: "map int [0..<nat (n_gpu_loops self)] = [0]"
    using assms by (simp_all add: grid111_def block1024_def)
  show ?thesis
    unfolding integrate_def integrate_gpu_def Let_def g b ls one
      one_voxel_launch [OF nv args_loop_idx]
    using assms(5) by simp
qed

lemma gpu_vol_geometry:
  "max_gpu_grid_dim (gpu_vol t oc w col msk) = [1, 1, 1]"
  "max_gpu_threads_per_block (gpu_vol t oc w col msk) = 1024"
  "n_gpu_loops (gpu_vol t oc w col msk) = 1"
  "vol_dim (gpu_vol t oc w col msk) = [1, 1, 1]"
  "gpu_mode (gpu_vol t oc w col msk)"
  by (simp_all add: gpu_vol_def)

lemmas gpu_vol_integrate = one_voxel_integrate [OF gpu_vol_geometry]

lemma gpu_run_near:
  "integrate (gpu_vol 1 (- 100) 0 0 0) (frame_depth 0.5) = Inr (gpu_vol 1 0.49 1 13145700 3)"
  unfolding gpu_vol_integrate by code_simp

lemma gpu_run_far:
  "integrate (gpu_vol 1 0.49 1 13145700 3) (frame_depth 2) = Inr (gpu_vol 1 1.99 2 13145700 3)"
  unfolding gpu_vol_integrate by code_simp

lemma gpu_run_centre:
  "integrate (gpu_vol 1 (- 100) 0 0 0) frame_at_centre = Inr (gpu_vol 1 1 1 13145700 3)"
  unfolding gpu_vol_integrate by code_simp

section \<open>The running mean stays in range\<close>









section \<open>The running mean is the weighted mean\<close>

lemma make_kernel_args_config:
  assumes "vol_dim s' = vol_dim s" "vol_origin s' = vol_origin s"
    "voxel_size s' = voxel_size s" "trunc_margin s' = trunc_margin s"
  shows "make_kernel_args s' f l = make_kernel_args s f l"
  using assms by (simp add: make_kernel_args_def)

lemma integrate_keeps_view:
  assumes "gpu_ready s" "integrate s f0 = Inr s'"
  shows "frame_args s' f = frame_args s f" "voxel_observed s' f v = voxel_observed s f v"
    "frame_dist s' f v = frame_dist s f v" "gpu_ready s'" "num_voxels s' = num_voxels s"
proof -
  have g: "integrate_gpu s f0 = Inr s'" using assms by (simp add: integrate_def gpu_ready_def)
  note C = integrate_gpu_ready [OF assms(1) g]
  show A: "frame_args s' f = frame_args s f"
    unfolding frame_args_def by (rule make_kernel_args_config [OF C(5,6,3,4)])
  show "voxel_observed s' f v = voxel_observed s f v" by (simp add: voxel_observed_def A)
  show "frame_dist s' f v = frame_dist s f v" by (simp add: frame_dist_def A)
  show "gpu_ready s'" "num_voxels s' = num_voxels s" by (rule C)+
qed

lemma integrate_gpu_voxel:
  assumes "gpu_ready s" "integrate s f = Inr s'" "int v < num_voxels s"
  shows "(tsdf_vol_gpu s' ! v, occl_vol_gpu s' ! v, weight_vol_gpu s' ! v, color_vol_gpu s' ! v,
          mask_vol_gpu s' ! v)
         = voxel_step (frame_args s f) (int v)
             (tsdf_vol_gpu s ! v, occl_vol_gpu s ! v, weight_vol_gpu s ! v, color_vol_gpu s ! v,
              mask_vol_gpu s ! v)"
proof -
  have g: "integrate_gpu s f = Inr s'" using assms by (simp add: integrate_def gpu_ready_def)
  show ?thesis
    using integrate_gpu_run(3) [OF assms(1) g assms(3)]
    by (simp add: cell_at_def device_mem_def frame_args_def)
qed

lemma observed_step:
  assumes "gpu_ready s" "integrate s f = Inr s'" "int v < num_voxels s" "voxel_observed s f v"
  shows "weight_vol_gpu s' ! v = weight_vol_gpu s ! v + obs_weight f"
    and "tsdf_vol_gpu s' ! v =
           (tsdf_vol_gpu s ! v * weight_vol_gpu s ! v + obs_weight f * frame_dist s f v)
           / (weight_vol_gpu s ! v + obs_weight f)"
    and "occl_vol_gpu s' ! v = max (occl_vol_gpu s ! v) (kernel_depth_diff (frame_args s f) (int v))"
  using integrate_gpu_voxel [OF assms(1,2,3)] assms(4)
  by (simp_all add: voxel_step_def voxel_observed_def frame_dist_def Let_def frame_args_def args_other)

lemma gpu_running_mean:
  assumes "integrate_all s fs = Inr s'" "gpu_ready s" "int v < num_voxels s"
    and "0 \<le> weight_vol_gpu s ! v"
    and "list_all (\<lambda>f. 0 < obs_weight f \<and> voxel_observed s f v) fs"
  shows "weight_vol_gpu s' ! v = weight_vol_gpu s ! v + (\<Sum>f\<leftarrow>fs. obs_weight f)
         \<and> weight_vol_gpu s' ! v * tsdf_vol_gpu s' ! v
             = weight_vol_gpu s ! v * tsdf_vol_gpu s ! v + (\<Sum>f\<leftarrow>fs. obs_weight f * frame_dist s f v)"
  using assms
proof (induction fs arbitrary: s)
  case Nil
  then show ?case by (simp add: integrate_all_def)
next
  case (Cons f fs)
  from Cons.prems(1) obtain s1 where s1: "integrate s f = Inr s1" "integrate_all s1 fs = Inr s'"
    by (auto simp: integrate_all_def bind_err_Inr_iff)
  have f: "0 < obs_weight f" "voxel_observed s f v"
    and rest: "list_all (\<lambda>f. 0 < obs_weight f \<and> voxel_observed s f v) fs"
    using Cons.prems(5) by simp_all
  note V = integrate_keeps_view [OF Cons.prems(2) s1(1)]
  note O = observed_step [OF Cons.prems(2) s1(1) Cons.prems(3) f(2)]
  have w1: "0 < weight_vol_gpu s1 ! v" using O(1) f(1) Cons.prems(4) by linarith
  have prod: "weight_vol_gpu s1 ! v * tsdf_vol_gpu s1 ! v
              = weight_vol_gpu s ! v * tsdf_vol_gpu s ! v + obs_weight f * frame_dist s f v"
    using w1 unfolding O(2) O(1) by (simp add: mult.commute)
  have rest1: "list_all (\<lambda>f. 0 < obs_weight f \<and> voxel_observed s1 f v) fs"
    using rest by (simp add: V(2))
  have nv1: "int v < num_voxels s1" using Cons.prems(3) by (simp add: V(5))
  have w1': "0 \<le> weight_vol_gpu s1 ! v" using w1 by simp
  note IH = Cons.IH [OF s1(2) V(4) nv1 w1' rest1]
  have I1: "weight_vol_gpu s' ! v = weight_vol_gpu s1 ! v + (\<Sum>f\<leftarrow>fs. obs_weight f)"
    using IH by blast
  have I2: "weight_vol_gpu s' ! v * tsdf_vol_gpu s' ! v
             = weight_vol_gpu s1 ! v * tsdf_vol_gpu s1 ! v + (\<Sum>f\<leftarrow>fs. obs_weight f * frame_dist s f v)"
    using IH unfolding V(3) by blast
  have G1: "weight_vol_gpu s' ! v = weight_vol_gpu s ! v + (\<Sum>f\<leftarrow>f # fs. obs_weight f)"
    unfolding I1 O(1) by simp
  have G2: "weight_vol_gpu s' ! v * tsdf_vol_gpu s' ! v
             = weight_vol_gpu s ! v * tsdf_vol_gpu s ! v + (\<Sum>f\<leftarrow>f # fs. obs_weight f * frame_dist s f v)"
    unfolding I2 prod by simp
  show ?case using G1 G2 by (rule conjI)
qed

text \<open>
  The weighted mean on the GPU path. Take an object in GPU mode and a voxel whose weight
  is 0 (as after construction or \<^verbatim>\<open>reset_visible\<close>), and a non-empty sequence of frames
  with positive observation weights in each of which the voxel is observed. If the calls
  return, the voxel's weight is the sum of the observation weights and its tsdf is the
  weighted mean of the truncated distances.
\<close>

theorem gpu_weighted_mean:
  assumes "integrate_all s fs = Inr s'" "gpu_ready s" "int v < num_voxels s"
    and "grid_weight s ! v = 0" and "fs \<noteq> []"
    and "list_all (\<lambda>f. 0 < obs_weight f \<and> voxel_observed s f v) fs"
  shows "grid_weight s' ! v = (\<Sum>f\<leftarrow>fs. obs_weight f)
         \<and> grid_tsdf s' ! v = (\<Sum>f\<leftarrow>fs. obs_weight f * frame_dist s f v) / (\<Sum>f\<leftarrow>fs. obs_weight f)"
proof -
  have w0: "weight_vol_gpu s ! v = 0" using assms(2,4) by (simp add: grid_weight_def gpu_ready_def)
  then have "0 \<le> weight_vol_gpu s ! v" by simp
  note M = gpu_running_mean [OF assms(1,2,3) this assms(6)]
  have g': "gpu_mode s'"
    using assms(1,2)
  proof (induction fs arbitrary: s)
    case Nil then show ?case by (simp add: integrate_all_def gpu_ready_def)
  next
    case (Cons f fs)
    from Cons.prems(1) obtain s1 where s1: "integrate s f = Inr s1" "integrate_all s1 fs = Inr s'"
      by (auto simp: integrate_all_def bind_err_Inr_iff)
    show ?case by (rule Cons.IH [OF s1(2) integrate_keeps_view(4) [OF Cons.prems(2) s1(1)]])
  qed
  have pos: "0 < (\<Sum>f\<leftarrow>fs. obs_weight f)"
    using assms(5,6)
  proof (induction fs)
    case Nil then show ?case by simp
  next
    case (Cons f fs)
    then show ?case by (cases fs) (auto intro: add_pos_pos)
  qed
  have W: "weight_vol_gpu s' ! v = (\<Sum>f\<leftarrow>fs. obs_weight f)"
    using conjunct1 [OF M] unfolding w0 by simp
  have "weight_vol_gpu s' ! v * tsdf_vol_gpu s' ! v = (\<Sum>f\<leftarrow>fs. obs_weight f * frame_dist s f v)"
    using conjunct2 [OF M] unfolding w0 by simp
  then have "(\<Sum>f\<leftarrow>fs. obs_weight f) * tsdf_vol_gpu s' ! v = (\<Sum>f\<leftarrow>fs. obs_weight f * frame_dist s f v)"
    unfolding W .
  then have "tsdf_vol_gpu s' ! v = (\<Sum>f\<leftarrow>fs. obs_weight f * frame_dist s f v) / (\<Sum>f\<leftarrow>fs. obs_weight f)"
    using pos by (simp add: field_simps)
  then show ?thesis using W g' by (simp add: grid_weight_def grid_tsdf_def)
qed

section \<open>Voxels outside the frustum; the occlusion field\<close>

lemma gpu_unseen_step:
  assumes "gpu_ready s" "integrate s f = Inr s'" "int v < num_voxels s"
    and "\<not> passes_tests (frame_args s f) (int v)"
  shows "tsdf_vol_gpu s' ! v = tsdf_vol_gpu s ! v" "occl_vol_gpu s' ! v = occl_vol_gpu s ! v"
    "weight_vol_gpu s' ! v = weight_vol_gpu s ! v" "color_vol_gpu s' ! v = color_vol_gpu s ! v"
    "mask_vol_gpu s' ! v = mask_vol_gpu s ! v"
  using integrate_gpu_voxel [OF assms(1,2,3)] assms(4)
  by (simp_all add: voxel_step_def)

lemma gpu_occl_step:
  assumes "gpu_ready s" "integrate s f = Inr s'" "int v < num_voxels s"
    and "passes_tests (frame_args s f) (int v)"
  shows "occl_vol_gpu s' ! v = max (occl_vol_gpu s ! v) (kernel_depth_diff (frame_args s f) (int v))"
  using integrate_gpu_voxel [OF assms(1,2,3)] assms(4)
  by (auto simp: voxel_step_def Let_def split: if_splits)

lemma gpu_outside_untouched:
  assumes "integrate_all s fs = Inr s'" "gpu_ready s" "int v < num_voxels s"
    and "list_all (\<lambda>f. pixel_outside (frame_args s f) (kernel_pixel (frame_args s f) (int v))
                         (kernel_cam_z (frame_args s f) (int v))) fs"
  shows "tsdf_vol_gpu s' ! v = tsdf_vol_gpu s ! v \<and> occl_vol_gpu s' ! v = occl_vol_gpu s ! v
         \<and> weight_vol_gpu s' ! v = weight_vol_gpu s ! v \<and> color_vol_gpu s' ! v = color_vol_gpu s ! v
         \<and> mask_vol_gpu s' ! v = mask_vol_gpu s ! v"
  using assms
proof (induction fs arbitrary: s)
  case Nil
  then show ?case by (simp add: integrate_all_def)
next
  case (Cons f fs)
  from Cons.prems(1) obtain s1 where s1: "integrate s f = Inr s1" "integrate_all s1 fs = Inr s'"
    by (auto simp: integrate_all_def bind_err_Inr_iff)
  note V = integrate_keeps_view [OF Cons.prems(2) s1(1)]
  have out: "\<not> passes_tests (frame_args s f) (int v)"
    using Cons.prems(4) by (simp add: passes_tests_def)
  note U = gpu_unseen_step [OF Cons.prems(2) s1(1) Cons.prems(3) out]
  have rest: "list_all (\<lambda>f. pixel_outside (frame_args s1 f) (kernel_pixel (frame_args s1 f) (int v))
                         (kernel_cam_z (frame_args s1 f) (int v))) fs"
    using Cons.prems(4) by (simp add: V(1))
  have nv1: "int v < num_voxels s1" using Cons.prems(3) by (simp add: V(5))
  show ?case using Cons.IH [OF s1(2) V(4) nv1 rest] U by simp
qed

section \<open>The scenarios, evaluated\<close>

lemma init_gpu_example:
  "TSDFVolume_init x86_cuda_host s1_bounds 0.02 True = Inr (gpu_vol 1 (- 100) 0 0 0)"
  by code_simp

lemma init_cpu_example:
  "TSDFVolume_init x86_cuda_host s1_bounds 0.02 False = Inr (cpu_vol 1 (- 100) 0 0 0)"
  by code_simp

lemma gpu_run_one:
  "integrate (gpu_vol 1 (- 100) 0 0 0) (frame_depth 1) = Inr (gpu_vol 1 0.99 1 13145700 3)"
  unfolding gpu_vol_integrate by code_simp

lemma gpu_run_003:
  "integrate (gpu_vol 1 (- 100) 0 0 0) (frame_depth 0.03) = Inr (gpu_vol 0.2 0.02 1 13145700 3)"
  unfolding gpu_vol_integrate by code_simp

lemma gpu_run_006:
  "integrate (gpu_vol 0.2 0.02 1 13145700 3) (frame_depth 0.06) = Inr (gpu_vol 0.35 0.05 2 13145700 3)"
  unfolding gpu_vol_integrate by code_simp

lemma gpu_run_index_N:
  "integrate (gpu_vol 1 (- 100) 0 0 0) (frame_shifted 0.02 0.02) = Inl OutOfBounds"
  unfolding gpu_vol_integrate by code_simp


lemma integrate_cpu_raises:
  assumes "cpu_project self (cam_pose f) (cam_intr f) = Inr r"
  shows "integrate_cpu self f = Inl (NameError ''w_new'')"
  using assms by (cases r) (simp add: integrate_cpu_def Let_def bind_err_def integrate_tsdf_def)

lemma cpu_project_example:
  "cpu_project (cpu_vol t oc w col msk) (pose_at 0 0 (- 0.01)) unit_intr = Inr ([(0, 0)], [0.01])"
  "cpu_project (cpu_vol t oc w col msk) (pose_at (- 0.01) 0 (- 0.01)) unit_intr = Inr ([(1, 0)], [0.01])"
  "cpu_project (cpu_vol t oc w col msk) (pose_at 0.01 0 (- 0.01)) unit_intr = Inr ([(- 1, 0)], [0.01])"
  by code_simp+

lemma frame_depth_cams:
  "cam_pose (frame_depth d) = pose_at 0 0 (- 0.01)" "cam_intr (frame_depth d) = unit_intr"
  "obs_weight (frame_depth d) = 1" "depth_im (frame_depth d) = [[d]]"
  by (simp_all add: frame_depth_def one_pixel_frame_def)

lemma cpu_run_raises:
  "integrate (cpu_vol t oc w col msk) (frame_depth d) = Inl (NameError ''w_new'')"
proof -
  have "integrate_cpu (cpu_vol t oc w col msk) (frame_depth d) = Inl (NameError ''w_new'')"
    by (rule integrate_cpu_raises) (unfold frame_depth_cams, rule cpu_project_example(1))
  then show ?thesis by (simp add: integrate_def cpu_vol_def)
qed

section \<open>The properties of the specification, on the code\<close>

lemma integrate_all_two:
  "integrate s f1 = Inr s1 \<Longrightarrow> integrate_all s [f1, f2] = integrate s1 f2"
  by (cases "integrate s1 f2") (simp_all add: integrate_all_def bind_err_def)

lemma integrate_all_raises:
  "integrate s f1 = Inl e \<Longrightarrow> integrate_all s (f1 # fs) = Inl e"
  by (simp add: integrate_all_def bind_err_def)



text \<open>The weighted mean at the two frames of depth 0.03 and 0.06: distances 0.2 and 0.5.\<close>

theorem gpu_weighted_mean_witness:
  "integrate_all (gpu_vol 1 (- 100) 0 0 0) [frame_depth 0.03, frame_depth 0.06]
       = Inr (gpu_vol 0.35 0.05 2 13145700 3)
   \<and> gpu_ready (gpu_vol 1 (- 100) 0 0 0) \<and> int 0 < num_voxels (gpu_vol 1 (- 100) 0 0 0)
   \<and> grid_weight (gpu_vol 1 (- 100) 0 0 0) ! 0 = 0
   \<and> list_all (\<lambda>f. 0 < obs_weight f \<and> voxel_observed (gpu_vol 1 (- 100) 0 0 0) f 0)
         [frame_depth 0.03, frame_depth 0.06]
   \<and> frame_dist (gpu_vol 1 (- 100) 0 0 0) (frame_depth 0.03) 0 = 0.2
   \<and> frame_dist (gpu_vol 1 (- 100) 0 0 0) (frame_depth 0.06) 0 = 0.5
   \<and> grid_weight (gpu_vol 0.35 0.05 2 13145700 3) ! 0
       = (\<Sum>f\<leftarrow>[frame_depth 0.03, frame_depth 0.06]. obs_weight f)
   \<and> grid_tsdf (gpu_vol 0.35 0.05 2 13145700 3) ! 0
       = (\<Sum>f\<leftarrow>[frame_depth 0.03, frame_depth 0.06].
            obs_weight f * frame_dist (gpu_vol 1 (- 100) 0 0 0) f 0)
         / (\<Sum>f\<leftarrow>[frame_depth 0.03, frame_depth 0.06]. obs_weight f)"
proof -
  have run: "integrate_all (gpu_vol 1 (- 100) 0 0 0) [frame_depth 0.03, frame_depth 0.06]
       = Inr (gpu_vol 0.35 0.05 2 13145700 3)"
    by (simp only: integrate_all_two [OF gpu_run_003] gpu_run_006)
  have rdy: "gpu_ready (gpu_vol 1 (- 100) 0 0 0)"
    by (simp add: gpu_ready_def gpu_vol_def num_voxels_def)
  have nv: "int 0 < num_voxels (gpu_vol 1 (- 100) 0 0 0)"
    by (simp add: gpu_vol_def num_voxels_def)
  have w0: "grid_weight (gpu_vol 1 (- 100) 0 0 0) ! 0 = 0"
    by (simp add: grid_weight_def gpu_vol_def)
  have o1: "voxel_observed (gpu_vol 1 (- 100) 0 0 0) (frame_depth 0.03) 0"
    and o2: "voxel_observed (gpu_vol 1 (- 100) 0 0 0) (frame_depth 0.06) 0"
    and d1: "frame_dist (gpu_vol 1 (- 100) 0 0 0) (frame_depth 0.03) 0 = 0.2"
    and d2: "frame_dist (gpu_vol 1 (- 100) 0 0 0) (frame_depth 0.06) 0 = 0.5"
    by code_simp+
  have obs: "list_all (\<lambda>f. 0 < obs_weight f \<and> voxel_observed (gpu_vol 1 (- 100) 0 0 0) f 0)
         [frame_depth 0.03, frame_depth 0.06]"
    using o1 o2 by (simp add: frame_depth_cams)
  have ne: "[frame_depth 0.03, frame_depth 0.06] \<noteq> []" by simp
  from gpu_weighted_mean [OF run rdy nv w0 ne obs]
  show ?thesis using run rdy nv w0 obs d1 d2 by blast
qed

lemma cpu_valid_example:
  "cpu_valid_pts (cpu_depth_val (frame_depth 1) [(0, 0)] [0.01]) = [0]"
  "cpu_valid_pts (cpu_depth_val (frame_shifted 0 (- 0.01)) [(0, 0)] [0.01]) = [0]"
  "cpu_valid_pts (cpu_depth_val (frame_shifted 0 0.01) [(0, 0)] [0.01]) = [0]"
  by code_simp+


text \<open>
  Claim C1 at a failing input. The one-voxel volume in CPU mode, one frame of depth 1
  seen from \<open>z = -0.01\<close>: the voxel projects to pixel (0, 0) at camera depth 0.01 and is
  in \<open>valid_pts\<close>, its distance is \<open>0.99 / 0.1 = 9.9\<close>; the call of
  \<^verbatim>\<open>integrate_tsdf\<close> raises NameError, and so does \<^verbatim>\<open>integrate\<close>, once or twice in a row.
  No tsdf or weight is ever accumulated on the CPU path. On the GPU path the claim holds:
  \<open>gpu_weighted_mean\<close>.
\<close>

theorem cpu_path_accumulates_nothing:
  "TSDFVolume_init x86_cuda_host s1_bounds 0.02 False = Inr (cpu_vol 1 (- 100) 0 0 0)
   \<and> cpu_project (cpu_vol 1 (- 100) 0 0 0) (cam_pose (frame_depth 1)) (cam_intr (frame_depth 1))
       = Inr ([(0, 0)], [0.01])
   \<and> cpu_valid_pts (cpu_depth_val (frame_depth 1) [(0, 0)] [0.01]) = [0]
   \<and> integrate_tsdf [1] [- 100] [9.9] [0] 1 = Inl (NameError ''w_new'')
   \<and> integrate (cpu_vol 1 (- 100) 0 0 0) (frame_depth 1) = Inl (NameError ''w_new'')
   \<and> integrate_all (cpu_vol 1 (- 100) 0 0 0) [frame_depth 1, frame_depth 1]
       = Inl (NameError ''w_new'')"
proof -
  have "cpu_project (cpu_vol 1 (- 100) 0 0 0) (cam_pose (frame_depth 1)) (cam_intr (frame_depth 1))
       = Inr ([(0, 0)], [0.01])"
    unfolding frame_depth_cams by (rule cpu_project_example(1))
  then show ?thesis
    using init_cpu_example cpu_valid_example(1) cpu_run_raises [of 1 "- 100" 0 0 0 1]
      integrate_all_raises [OF cpu_run_raises [of 1 "- 100" 0 0 0 1], of "[frame_depth 1]"]
    by (simp add: integrate_tsdf_def)
qed

text \<open>
  Claim C2 at a failing input. The same volume constructed in GPU mode and in CPU mode,
  the same frame, of depth 0.03, so that \<open>delta / trunc_margin = 0.02 / 0.1\<close> is in
  \<open>[-1, 1]\<close>: the GPU call returns with tsdf 0.2, weight 1 and mask 3 in the voxel, the CPU
  call raises NameError and leaves tsdf 1, weight 0 and mask 0.
\<close>

theorem gpu_and_cpu_results_differ:
  "TSDFVolume_init x86_cuda_host s1_bounds 0.02 True = Inr (gpu_vol 1 (- 100) 0 0 0)
   \<and> TSDFVolume_init x86_cuda_host s1_bounds 0.02 False = Inr (cpu_vol 1 (- 100) 0 0 0)
   \<and> kernel_depth_diff (frame_args (gpu_vol 1 (- 100) 0 0 0) (frame_depth 0.03)) 0 = 0.02
   \<and> trunc_margin (gpu_vol 1 (- 100) 0 0 0) = 0.1
   \<and> integrate (gpu_vol 1 (- 100) 0 0 0) (frame_depth 0.03) = Inr (gpu_vol 0.2 0.02 1 13145700 3)
   \<and> grid_tsdf (gpu_vol 0.2 0.02 1 13145700 3) = [0.2]
   \<and> grid_weight (gpu_vol 0.2 0.02 1 13145700 3) = [1]
   \<and> grid_mask (gpu_vol 0.2 0.02 1 13145700 3) = [3]
   \<and> integrate (cpu_vol 1 (- 100) 0 0 0) (frame_depth 0.03) = Inl (NameError ''w_new'')
   \<and> grid_tsdf (cpu_vol 1 (- 100) 0 0 0) = [1]
   \<and> grid_weight (cpu_vol 1 (- 100) 0 0 0) = [0]
   \<and> grid_mask (cpu_vol 1 (- 100) 0 0 0) = [0]"
proof -
  have "kernel_depth_diff (frame_args (gpu_vol 1 (- 100) 0 0 0) (frame_depth 0.03)) 0 = 0.02"
    by code_simp
  then show ?thesis
    using init_gpu_example init_cpu_example gpu_run_003 cpu_run_raises [of 1 "- 100" 0 0 0 "0.03"]
    by (simp add: grid_tsdf_def grid_weight_def grid_mask_def gpu_vol_def cpu_vol_def)
qed

text \<open>
  Claim C4 at a failing input: the two frames of scenario S6, depths 0.5 and 2.0, with
  the voxel at camera depth 0.01. On the GPU path the occlusion value ends at 1.99, as the
  claim says (\<open>gpu_occl_step\<close> is the general statement). On the CPU path the first call
  raises NameError and the occlusion value stays at -100.
\<close>

theorem cpu_occl_never_updated:
  "integrate_all (gpu_vol 1 (- 100) 0 0 0) [frame_depth 0.5, frame_depth 2]
     = Inr (gpu_vol 1 1.99 2 13145700 3)
   \<and> grid_occl (gpu_vol 1 1.99 2 13145700 3) = [1.99]
   \<and> integrate_all (cpu_vol 1 (- 100) 0 0 0) [frame_depth 0.5, frame_depth 2]
     = Inl (NameError ''w_new'')
   \<and> grid_occl (cpu_vol 1 (- 100) 0 0 0) = [- 100]"
proof -
  have "integrate_all (gpu_vol 1 (- 100) 0 0 0) [frame_depth 0.5, frame_depth 2]
     = Inr (gpu_vol 1 1.99 2 13145700 3)"
    by (simp only: integrate_all_two [OF gpu_run_near] gpu_run_far)
  then show ?thesis
    using integrate_all_raises [OF cpu_run_raises [of 1 "- 100" 0 0 0 "0.5"], of "[frame_depth 2]"]
    by (simp add: grid_occl_def gpu_vol_def cpu_vol_def)
qed

text \<open>
  Claim C6 at a failing input: scenario S1 on the GPU path. With both poses the identity
  the only voxel is at the optical centre, camera depth 0. The test of line 138 rejects
  \<open>cam_pt_z < 0\<close> only; the quotient \<open>0 / 0\<close> is a NaN, which the device converts to pixel
  0, and the voxel is integrated: occl, weight, color and mask leave their initial values.
  For a voxel whose pixel is outside the image or whose camera depth is negative the
  claim holds on the GPU path: \<open>gpu_outside_untouched\<close>.
\<close>

theorem gpu_updates_voxel_at_camera_centre:
  "TSDFVolume_init x86_cuda_host s1_bounds 0.02 True = Inr (gpu_vol 1 (- 100) 0 0 0)
   \<and> kernel_cam_pt (frame_args (gpu_vol 1 (- 100) 0 0 0) frame_at_centre) 0 = (0, 0, 0)
   \<and> kernel_pixel (frame_args (gpu_vol 1 (- 100) 0 0 0) frame_at_centre) 0 = (0, 0)
   \<and> integrate (gpu_vol 1 (- 100) 0 0 0) frame_at_centre = Inr (gpu_vol 1 1 1 13145700 3)
   \<and> grid_occl (gpu_vol 1 1 1 13145700 3) = [1]
   \<and> grid_weight (gpu_vol 1 1 1 13145700 3) = [1]
   \<and> grid_color (gpu_vol 1 1 1 13145700 3) = [13145700]
   \<and> grid_mask (gpu_vol 1 1 1 13145700 3) = [3]"
proof -
  have "kernel_cam_pt (frame_args (gpu_vol 1 (- 100) 0 0 0) frame_at_centre) 0 = (0, 0, 0)"
    "kernel_pixel (frame_args (gpu_vol 1 (- 100) 0 0 0) frame_at_centre) 0 = (0, 0)"
    by code_simp+
  then show ?thesis
    using init_gpu_example gpu_run_centre
    by (simp add: grid_occl_def grid_weight_def grid_color_def grid_mask_def gpu_vol_def)
qed

text \<open>
  Claim C9 at a failing input. The one-voxel volume, for which the dispatch chooses one
  launch of one block of 1024 threads. Thread 1 computes \<open>voxel_idx = 1 = N\<close>, which the
  guard \<open>voxel_idx > N\<close> of line 114 lets through. In a frame where the point one voxel
  beyond the volume, \<open>(0.02, 0, 0)\<close>, is in view with non-zero depth, that thread reads
  \<open>mask_vol[1]\<close> of a buffer of length 1.
\<close>

theorem guard_admits_voxel_idx_N:
  "TSDFVolume_init x86_cuda_host s1_bounds 0.02 True = Inr (gpu_vol 1 (- 100) 0 0 0)
   \<and> kernel_num_voxels (make_kernel_args (gpu_vol 1 (- 100) 0 0 0) (frame_shifted 0.02 0.02) 0) = 1
   \<and> thread_voxel_idx (make_kernel_args (gpu_vol 1 (- 100) 0 0 0) (frame_shifted 0.02 0.02) 0)
        grid111 block1024 block0 (thread_no 1) = 1
   \<and> length (mask_vol (device_mem (gpu_vol 1 (- 100) 0 0 0))) = 1
   \<and> hd (tl (launch_threads grid111 block1024)) = (block0, thread_no 1)
   \<and> integrate_kernel (make_kernel_args (gpu_vol 1 (- 100) 0 0 0) (frame_shifted 0.02 0.02) 0)
        grid111 block1024 block0 (thread_no 1) (device_mem (gpu_vol 1 (- 100) 0 0 0))
       = Inl OutOfBounds
   \<and> integrate (gpu_vol 1 (- 100) 0 0 0) (frame_shifted 0.02 0.02) = Inl OutOfBounds"
proof -
  have "hd (tl (launch_threads grid111 block1024)) = (block0, thread_no 1)"
    unfolding launch_threads_one_block upt_1024 by simp
  moreover
  have "kernel_num_voxels (make_kernel_args (gpu_vol 1 (- 100) 0 0 0) (frame_shifted 0.02 0.02) 0) = 1"
    "thread_voxel_idx (make_kernel_args (gpu_vol 1 (- 100) 0 0 0) (frame_shifted 0.02 0.02) 0)
        grid111 block1024 block0 (thread_no 1) = 1"
    "length (mask_vol (device_mem (gpu_vol 1 (- 100) 0 0 0))) = 1"
    "integrate_kernel (make_kernel_args (gpu_vol 1 (- 100) 0 0 0) (frame_shifted 0.02 0.02) 0)
        grid111 block1024 block0 (thread_no 1) (device_mem (gpu_vol 1 (- 100) 0 0 0))
       = Inl OutOfBounds"
    by code_simp+
  ultimately show ?thesis using init_gpu_example gpu_run_index_N by simp
qed


end
